theory Spec2Isabelle
  imports Main
begin

section \<open>JavaScript values shared by the services\<close>

text \<open>
  A thrown JavaScript \<open>Error\<close> is represented by its message, and a call that may throw
  returns \<open>string + 'a\<close> with \<open>Inl\<close> for the thrown error. A value that may be
  \<open>undefined\<close> or \<open>null\<close> is an \<open>option\<close>.
\<close>

definition andThen :: "string + 'a \<Rightarrow> ('a \<Rightarrow> string + 'b) \<Rightarrow> string + 'b" where
  "andThen r k = (case r of Inl e \<Rightarrow> Inl e | Inr v \<Rightarrow> k v)"

text \<open>
  \<open>String.prototype.toLowerCase\<close> and \<open>String.prototype.includes\<close> on the ASCII
  strings the services apply them to (Solidity event names, hexadecimal addresses, error
  messages).
\<close>

definition lowerChar :: "char \<Rightarrow> char" where
  "lowerChar c =
     (case map_of (zip ''ABCDEFGHIJKLMNOPQRSTUVWXYZ'' ''abcdefghijklmnopqrstuvwxyz'') c of
        None \<Rightarrow> c
      | Some d \<Rightarrow> d)"

definition toLowerCase :: "string \<Rightarrow> string" where
  "toLowerCase s = map lowerChar s"

fun startsWith :: "string \<Rightarrow> string \<Rightarrow> bool" where
  "startsWith s [] = True"
| "startsWith [] (c # cs) = False"
| "startsWith (d # ds) (c # cs) = (d = c \<and> startsWith ds cs)"

fun str_includes :: "string \<Rightarrow> string \<Rightarrow> bool" where
  "str_includes [] sub = (sub = [])"
| "str_includes (d # ds) sub = (startsWith (d # ds) sub \<or> str_includes ds sub)"

text \<open>
  A JavaScript \<open>Set\<close> of strings keeps its members in insertion order without duplicates;
  \<open>Array.from\<close> of the set is that list.
\<close>

definition Set_add :: "string \<Rightarrow> string list \<Rightarrow> string list" where
  "Set_add x xs = (if x \<in> set xs then xs else xs @ [x])"

section \<open>Raw logs and the ethers decoder\<close>

record RawLog =
  log_address :: string
  log_topics :: "string list"
  log_data :: string
  logIndex :: int
  blockNumber :: int

text \<open>
  What \<open>Interface.parseLog\<close> of the ethers library hands back: the event name and the
  decoded arguments (each by its string form). The library is not part of the repository,
  so a decoder is a parameter of the model: on a log it throws (\<open>Inl\<close>, which also stands
  for an argument whose decoding failed and that throws when it is read), returns
  \<open>null\<close> (\<open>Inr None\<close>) or returns a description.
\<close>

record LogDescription =
  ld_name :: string
  ld_args :: "string list"

type_synonym Interface = "RawLog \<Rightarrow> string + LogDescription option"

section \<open>BlockchainService.parseLogs: the standard-token path\<close>

text \<open>
  The records pushed into \<open>transfers\<close> carry \<open>value\<close> (ERC-20) or \<open>tokenId\<close>
  (ERC-721); the key the record does not have is \<open>None\<close>.
\<close>

record TransferRecord =
  tr_type :: string
  tr_from :: string
  tr_to :: string
  tr_value :: "string option"
  tr_tokenId :: "string option"
  tr_logIndex :: int
  tr_blockNumber :: int

record DepositRecord =
  dp_type :: string
  dp_from :: string
  dp_value :: string
  dp_logIndex :: int
  dp_blockNumber :: int

record RawEvent =
  ev_type :: string
  ev_topics :: "string list"
  ev_data :: string
  ev_logIndex :: int
  ev_blockNumber :: int
  ev_address :: string

record ParsedLogs =
  transfers :: "TransferRecord list"
  deposits :: "DepositRecord list"
  otherEvents :: "RawEvent list"
  contractType :: string
  senderAddresses :: "string list"
  receiverAddresses :: "string list"

definition emptyParsedLogs :: ParsedLogs where
  "emptyParsedLogs =
     \<lparr>transfers = [], deposits = [], otherEvents = [], contractType = ''Unknown'',
      senderAddresses = [], receiverAddresses = []\<rparr>"

text \<open>
  The first \<open>try\<close> block of the loop body (lines 125-165). Every read of
  \<open>parsedLog.args\<close> comes before the first mutation, so a throw leaves \<open>parsedLogs\<close>
  untouched and \<open>parsed\<close> false. \<open>args[2].toString()\<close> throws when there is no third
  argument, whether the out-of-range read throws by itself or yields \<open>undefined\<close>;
  the list patterns say so. The result pairs the updated accumulator with \<open>parsed\<close>.
\<close>

definition tryERC20 :: "Interface \<Rightarrow> RawLog \<Rightarrow> ParsedLogs \<Rightarrow> ParsedLogs \<times> bool" where
  "tryERC20 erc20Interface log parsedLogs =
     (case erc20Interface log of
        Inl error \<Rightarrow> (parsedLogs, False)
      | Inr None \<Rightarrow> (parsedLogs, False)
      | Inr (Some parsedLog) \<Rightarrow>
          if ld_name parsedLog = ''Transfer'' then
            (case ld_args parsedLog of
               from_a # to_a # val # rest \<Rightarrow>
                 (parsedLogs
                    \<lparr>transfers := transfers parsedLogs @
                       [\<lparr>tr_type = ''ERC20 Transfer'', tr_from = from_a, tr_to = to_a,
                         tr_value = Some val, tr_tokenId = None,
                         tr_logIndex = logIndex log, tr_blockNumber = blockNumber log\<rparr>],
                     senderAddresses := Set_add from_a (senderAddresses parsedLogs),
                     receiverAddresses := Set_add to_a (receiverAddresses parsedLogs),
                     contractType := ''ERC20''\<rparr>, True)
             | _ \<Rightarrow> (parsedLogs, False))
          else if ld_name parsedLog = ''Deposit'' then
            (case ld_args parsedLog of
               from_a # val # rest \<Rightarrow>
                 (parsedLogs
                    \<lparr>deposits := deposits parsedLogs @
                       [\<lparr>dp_type = ''Deposit'', dp_from = from_a, dp_value = val,
                         dp_logIndex = logIndex log, dp_blockNumber = blockNumber log\<rparr>],
                     senderAddresses := Set_add from_a (senderAddresses parsedLogs),
                     contractType := ''ERC20''\<rparr>, True)
             | _ \<Rightarrow> (parsedLogs, False))
          else (parsedLogs, False))"

text \<open>The second \<open>try\<close> block (lines 169-194), entered only when \<open>parsed\<close> is false.\<close>

definition tryERC721 :: "Interface \<Rightarrow> RawLog \<Rightarrow> ParsedLogs \<Rightarrow> ParsedLogs \<times> bool" where
  "tryERC721 erc721Interface log parsedLogs =
     (case erc721Interface log of
        Inl error \<Rightarrow> (parsedLogs, False)
      | Inr None \<Rightarrow> (parsedLogs, False)
      | Inr (Some parsedLog) \<Rightarrow>
          if ld_name parsedLog = ''Transfer'' then
            (case ld_args parsedLog of
               from_a # to_a # tokenId # rest \<Rightarrow>
                 (parsedLogs
                    \<lparr>transfers := transfers parsedLogs @
                       [\<lparr>tr_type = ''ERC721 Transfer'', tr_from = from_a, tr_to = to_a,
                         tr_value = None, tr_tokenId = Some tokenId,
                         tr_logIndex = logIndex log, tr_blockNumber = blockNumber log\<rparr>],
                     senderAddresses := Set_add from_a (senderAddresses parsedLogs),
                     receiverAddresses := Set_add to_a (receiverAddresses parsedLogs),
                     contractType := ''ERC721''\<rparr>, True)
             | _ \<Rightarrow> (parsedLogs, False))
          else (parsedLogs, False))"

text \<open>
  The loop over \<open>log.topics\<close> from index 1 (lines 209-223). \<open>ethers.getAddress\<close> is a
  parameter: it throws or returns the checksummed address. \<open>topic.slice(26)\<close> drops the
  first 26 characters.
\<close>

fun topicLoop ::
  "(string \<Rightarrow> string + string) \<Rightarrow> nat \<Rightarrow> string list \<Rightarrow> ParsedLogs \<Rightarrow> ParsedLogs" where
  "topicLoop getAddress i [] parsedLogs = parsedLogs"
| "topicLoop getAddress i (topic # rest) parsedLogs =
     topicLoop getAddress (Suc i) rest
       (if length topic = 66 then
          (case getAddress (''0x'' @ drop 26 topic) of
             Inl error \<Rightarrow> parsedLogs
           | Inr address \<Rightarrow>
               if i = 1 then
                 parsedLogs\<lparr>senderAddresses := Set_add address (senderAddresses parsedLogs)\<rparr>
               else if i = 2 then
                 parsedLogs\<lparr>receiverAddresses := Set_add address (receiverAddresses parsedLogs)\<rparr>
               else parsedLogs)
        else parsedLogs)"

text \<open>The \<open>if (!parsed)\<close> block of lines 198-226: the address guess, then the raw event.\<close>

definition rawFallback ::
  "(string \<Rightarrow> string + string) \<Rightarrow> RawLog \<Rightarrow> ParsedLogs \<Rightarrow> ParsedLogs" where
  "rawFallback getAddress log parsedLogs =
     (let guessed = topicLoop getAddress 1 (drop 1 (log_topics log)) parsedLogs
      in guessed
           \<lparr>otherEvents := otherEvents guessed @
              [\<lparr>ev_type = ''Unknown Event'', ev_topics = log_topics log, ev_data = log_data log,
                ev_logIndex = logIndex log, ev_blockNumber = blockNumber log,
                ev_address = log_address log\<rparr>]\<rparr>)"

text \<open>One iteration of \<open>for (const log of logs)\<close>.\<close>

definition parseLog_step ::
  "Interface \<Rightarrow> Interface \<Rightarrow> (string \<Rightarrow> string + string) \<Rightarrow> ParsedLogs \<Rightarrow> RawLog \<Rightarrow> ParsedLogs" where
  "parseLog_step erc20Interface erc721Interface getAddress parsedLogs log =
     (case tryERC20 erc20Interface log parsedLogs of
        (p1, True) \<Rightarrow> p1
      | (p1, False) \<Rightarrow>
          (case tryERC721 erc721Interface log p1 of
             (p2, True) \<Rightarrow> p2
           | (p2, False) \<Rightarrow> rawFallback getAddress log p2))"

text \<open>
  \<open>parseLogs(logs, contractAddress)\<close>. The topics of a log are strings, so nothing in
  the loop throws outside the inner \<open>try\<close> blocks and the outer \<open>catch\<close> is never
  entered; the sets are already lists. \<open>contractAddress\<close> is not read.
\<close>

definition parseLogs ::
  "Interface \<Rightarrow> Interface \<Rightarrow> (string \<Rightarrow> string + string) \<Rightarrow> RawLog list \<Rightarrow> string option \<Rightarrow> ParsedLogs" where
  "parseLogs erc20Interface erc721Interface getAddress logs contractAddress =
     foldl (parseLog_step erc20Interface erc721Interface getAddress) emptyParsedLogs logs"

section \<open>BlockchainService.analyzeTransactionPattern\<close>

record Transaction =
  tx_from :: string
  tx_to :: "string option"
  tx_value :: int
  tx_data :: string
  tx_gasPrice :: int
  tx_nonce :: int

record Receipt =
  rc_blockNumber :: int
  rc_gasUsed :: int
  rc_status :: "int option"
  rc_logs :: "RawLog list"

record Analysis =
  an_type :: string
  an_success :: bool
  hasTransfers :: bool
  hasDeposits :: bool
  an_contractType :: string
  senderCount :: nat
  receiverCount :: nat
  totalEvents :: nat

definition analyzeTransactionPattern :: "Transaction \<Rightarrow> Receipt \<Rightarrow> ParsedLogs \<Rightarrow> Analysis" where
  "analyzeTransactionPattern transaction receipt parsedLogs =
     (let analysis =
        \<lparr>an_type = ''unknown'',
         an_success = (rc_status receipt = Some 1),
         hasTransfers = (length (transfers parsedLogs) > 0),
         hasDeposits = (length (deposits parsedLogs) > 0),
         an_contractType = contractType parsedLogs,
         senderCount = length (senderAddresses parsedLogs),
         receiverCount = length (receiverAddresses parsedLogs),
         totalEvents = length (transfers parsedLogs) + length (deposits parsedLogs)
                       + length (otherEvents parsedLogs)\<rparr>
      in if length (transfers parsedLogs) > 0 then analysis\<lparr>an_type := ''transfer''\<rparr>
         else if length (deposits parsedLogs) > 0 then analysis\<lparr>an_type := ''deposit''\<rparr>
         else if tx_data transaction \<noteq> '''' \<and> tx_data transaction \<noteq> ''0x''
           then analysis\<lparr>an_type := ''contract_call''\<rparr>
         else if tx_value transaction > 0 then analysis\<lparr>an_type := ''eth_transfer''\<rparr>
         else analysis)"

section \<open>ABIFetcher.parseLogsWithABI: the custom-ABI path\<close>

text \<open>
  The records of the three category lists. Their fields come from
  \<open>parsedLog.args[i]?.toString()\<close>, which may be \<open>undefined\<close>.
\<close>

record FailureRecord =
  fl_type :: string
  fl_from :: "string option"
  fl_to :: "string option"
  fl_amount :: "string option"
  fl_reason :: "string option"
  fl_logIndex :: int

record PartialTransferRecord =
  pt_type :: string
  pt_from :: "string option"
  pt_to :: "string option"
  pt_requested :: "string option"
  pt_sent :: "string option"
  pt_logIndex :: int

record AbiTransferRecord =
  at_type :: string
  at_from :: "string option"
  at_to :: "string option"
  at_amount :: "string option"
  at_logIndex :: int

record EventData =
  ed_name :: string
  ed_args :: "string list"
  ed_logIndex :: int
  ed_error :: "string option"

record ParsedABILogs =
  abi_transfers :: "AbiTransferRecord list"
  failures :: "FailureRecord list"
  partialTransfers :: "PartialTransferRecord list"
  abi_contractType :: string
  contractInfo :: "(string \<times> string) list"
  parsedEvents :: "EventData list"

definition emptyParsedABILogs :: ParsedABILogs where
  "emptyParsedABILogs =
     \<lparr>abi_transfers = [], failures = [], partialTransfers = [], abi_contractType = ''Custom'',
      contractInfo = [], parsedEvents = []\<rparr>"

text \<open>
  \<open>parsedLog.args[i]?.toString()\<close>. Inside the decoded arguments it is the string form
  of the argument. What a read past the last argument does is the library's business and
  a parameter \<open>oob\<close> of the model: \<open>None\<close> when the read yields \<open>undefined\<close> (a plain
  array), \<open>Some e\<close> when it throws \<open>e\<close> (a result object that checks its range, as
  the one of ethers 6 does, before \<open>?.\<close> can apply).
\<close>

definition argString :: "string option \<Rightarrow> string list \<Rightarrow> nat \<Rightarrow> string + string option" where
  "argString oob args i =
     (if i < length args then Inr (Some (args ! i))
      else (case oob of None \<Rightarrow> Inr None | Some e \<Rightarrow> Inl e))"

text \<open>
  Lines 184-212: the categorisation by name pattern. The fields of a record are evaluated
  before \<open>push\<close> is called, so a throwing read leaves the lists untouched.
\<close>

definition categorize ::
  "string option \<Rightarrow> LogDescription \<Rightarrow> RawLog \<Rightarrow> ParsedABILogs \<Rightarrow> string + ParsedABILogs" where
  "categorize oob parsedLog log parsedLogs =
     (let lname = toLowerCase (ld_name parsedLog); args = ld_args parsedLog in
      if str_includes lname ''transfer'' then
        if str_includes lname ''failed'' then
          andThen (argString oob args 0) (\<lambda>from_a.
          andThen (argString oob args 1) (\<lambda>to_a.
          andThen (argString oob args 2) (\<lambda>amount.
          andThen (argString oob args 3) (\<lambda>reason.
            Inr (parsedLogs\<lparr>failures := failures parsedLogs @
                   [\<lparr>fl_type = ld_name parsedLog, fl_from = from_a, fl_to = to_a,
                     fl_amount = amount, fl_reason = reason,
                     fl_logIndex = logIndex log\<rparr>]\<rparr>)))))
        else if str_includes lname ''partial'' then
          andThen (argString oob args 0) (\<lambda>from_a.
          andThen (argString oob args 1) (\<lambda>to_a.
          andThen (argString oob args 2) (\<lambda>requested.
          andThen (argString oob args 3) (\<lambda>sent.
            Inr (parsedLogs\<lparr>partialTransfers := partialTransfers parsedLogs @
                   [\<lparr>pt_type = ld_name parsedLog, pt_from = from_a, pt_to = to_a,
                     pt_requested = requested, pt_sent = sent,
                     pt_logIndex = logIndex log\<rparr>]\<rparr>)))))
        else
          andThen (argString oob args 0) (\<lambda>from_a.
          andThen (argString oob args 1) (\<lambda>to_a.
          andThen (argString oob args 2) (\<lambda>amount.
            Inr (parsedLogs\<lparr>abi_transfers := abi_transfers parsedLogs @
                   [\<lparr>at_type = ld_name parsedLog, at_from = from_a, at_to = to_a,
                     at_amount = amount, at_logIndex = logIndex log\<rparr>]\<rparr>))))
      else Inr parsedLogs)"

text \<open>The \<open>catch\<close> of lines 216-224.\<close>

definition pushUnknown :: "string \<Rightarrow> RawLog \<Rightarrow> ParsedABILogs \<Rightarrow> ParsedABILogs" where
  "pushUnknown error log parsedLogs =
     parsedLogs\<lparr>parsedEvents := parsedEvents parsedLogs @
       [\<lparr>ed_name = ''Unknown'', ed_args = [], ed_logIndex = logIndex log,
         ed_error = Some error\<rparr>]\<rparr>"

text \<open>One iteration of the loop of lines 172-225.\<close>

definition parseABI_step ::
  "string option \<Rightarrow> Interface \<Rightarrow> ParsedABILogs \<Rightarrow> RawLog \<Rightarrow> ParsedABILogs" where
  "parseABI_step oob contractInterface parsedLogs log =
     (case contractInterface log of
        Inl error \<Rightarrow> pushUnknown error log parsedLogs
      | Inr None \<Rightarrow> parsedLogs
      | Inr (Some parsedLog) \<Rightarrow>
          (case categorize oob parsedLog log parsedLogs of
             Inl error \<Rightarrow> pushUnknown error log parsedLogs
           | Inr categorized \<Rightarrow>
               categorized\<lparr>parsedEvents := parsedEvents categorized @
                 [\<lparr>ed_name = ld_name parsedLog, ed_args = ld_args parsedLog,
                   ed_logIndex = logIndex log, ed_error = None\<rparr>]\<rparr>))"

text \<open>
  \<open>parseLogsWithABI(logs, contractAddress, abi)\<close>. \<open>newInterface\<close> stands for
  \<open>new ethers.Interface(abi)\<close>; when it throws, the outer \<open>catch\<close> returns the initial
  result.
\<close>

definition parseLogsWithABI ::
  "string option \<Rightarrow> ('abi \<Rightarrow> string + Interface) \<Rightarrow> RawLog list \<Rightarrow> string \<Rightarrow> 'abi \<Rightarrow> ParsedABILogs" where
  "parseLogsWithABI oob newInterface logs contractAddress abi =
     (case newInterface abi of
        Inl error \<Rightarrow> emptyParsedABILogs
      | Inr contractInterface \<Rightarrow>
          foldl (parseABI_step oob contractInterface) emptyParsedABILogs logs)"

section \<open>ABIFetcher: the ABI cache and the resolver\<close>

text \<open>
  A JSON document, as \<open>JSON.parse\<close> produces it; \<open>JNull\<close> is also the \<open>null\<close> the
  fetcher returns for "no ABI". \<open>truthy\<close> is the test of \<open>if (abi)\<close>.
\<close>

datatype json =
    JNull
  | JBool bool
  | JNum int
  | JStr string
  | JArr "json list"
  | JObj "(string \<times> json) list"

fun truthy :: "json \<Rightarrow> bool" where
  "truthy JNull = False"
| "truthy (JBool b) = b"
| "truthy (JNum n) = (n \<noteq> 0)"
| "truthy (JStr s) = (s \<noteq> '''')"
| "truthy (JArr xs) = True"
| "truthy (JObj members) = True"

text \<open>
  \<open>value.key\<close> on a parsed document: the member of an object (the last one of that name),
  \<open>undefined\<close> (\<open>None\<close>) on every other value that has properties at all. Reading a
  property of \<open>null\<close> throws; the callers below test for that first.
\<close>

fun getProp :: "json \<Rightarrow> string \<Rightarrow> json option" where
  "getProp (JObj members) key = map_of (rev members) key"
| "getProp v key = None"

text \<open>
  The \<open>JSON\<close> object of the runtime is a parameter: \<open>parse\<close> throws or returns a
  document, \<open>stringify\<close> returns the text of a document.
\<close>

type_synonym JSON_parse = "string \<Rightarrow> string + json"
type_synonym JSON_stringify = "json \<Rightarrow> string"

text \<open>
  The Redis server behind \<open>this.redisClient\<close>, reduced to the two commands the fetcher
  sends. An entry holds its value and the instant (in seconds) at which it expires:
  \<open>SETEX key seconds value\<close> stores the value with expiry \<open>now + seconds\<close>, and
  \<open>GET key\<close> returns the value of an entry that has not expired. A command on a
  connection that is down rejects.
\<close>

record Redis =
  entries :: "string \<Rightarrow> (string \<times> nat) option"
  up :: bool

definition setEx :: "Redis \<Rightarrow> nat \<Rightarrow> string \<Rightarrow> nat \<Rightarrow> string \<Rightarrow> string + Redis" where
  "setEx r now key seconds text =
     (if up r then Inr (r\<lparr>entries := (entries r)(key \<mapsto> (text, now + seconds))\<rparr>)
      else Inl ''The client is closed'')"

definition redis_get :: "Redis \<Rightarrow> nat \<Rightarrow> string \<Rightarrow> string + string option" where
  "redis_get r now key =
     (if up r then
        Inr (case entries r key of
               None \<Rightarrow> None
             | Some (text, expiry) \<Rightarrow> if now < expiry then Some text else None)
      else Inl ''The client is closed'')"

text \<open>The reply of MonadScan's \<open>getabi\<close> action: the \<open>status\<close> and \<open>result\<close> strings.\<close>

record ScanData =
  sd_status :: string
  sd_result :: string

text \<open>Every call the fetcher makes to the outside, in the order it makes them.\<close>

datatype request =
    RedisGet string
  | RedisSetEx string nat string
  | ScanGetAbi string
  | ExplorerGetAbi string

text \<open>
  The state the fetcher works in: its \<open>redisClient\<close> field (\<open>None\<close> when
  \<open>getRedisClient()\<close> gave \<open>null\<close>), the time in seconds, what the two explorers
  answer for an address (\<open>Inl\<close> when \<open>axios.get\<close> rejects or the body is not of the
  expected shape, so that reading it throws), and the requests made so far.
\<close>

record Env =
  redisClient :: "Redis option"
  clock :: nat
  monadscan :: "string \<Rightarrow> string + ScanData"
  monadexplorer :: "string \<Rightarrow> string + json"
  requests :: "request list"

definition fetchFromMonadScan :: "JSON_parse \<Rightarrow> Env \<Rightarrow> string \<Rightarrow> json \<times> Env" where
  "fetchFromMonadScan parse env contractAddress =
     (let env' = env\<lparr>requests := requests env @ [ScanGetAbi contractAddress]\<rparr> in
      case monadscan env contractAddress of
        Inl error \<Rightarrow> (JNull, env')
      | Inr response_data \<Rightarrow>
          if sd_status response_data = ''1''
             \<and> sd_result response_data \<noteq> ''Contract source code not verified''
          then (case parse (sd_result response_data) of
                  Inl error \<Rightarrow> (JNull, env')
                | Inr abi \<Rightarrow> (abi, env'))
          else (JNull, env'))"

definition fetchFromMonadExplorer :: "Env \<Rightarrow> string \<Rightarrow> json \<times> Env" where
  "fetchFromMonadExplorer env contractAddress =
     (let env' = env\<lparr>requests := requests env @ [ExplorerGetAbi contractAddress]\<rparr> in
      case monadexplorer env contractAddress of
        Inl error \<Rightarrow> (JNull, env')
      | Inr response_data \<Rightarrow>
          if truthy response_data then
            (case getProp response_data ''abi'' of
               None \<Rightarrow> (JNull, env')
             | Some abi \<Rightarrow> if truthy abi then (abi, env') else (JNull, env'))
          else (JNull, env'))"

definition cacheKey :: "string \<Rightarrow> string" where
  "cacheKey contractAddress = ''abi:'' @ toLowerCase contractAddress"

definition cacheABI :: "JSON_stringify \<Rightarrow> Env \<Rightarrow> string \<Rightarrow> json \<Rightarrow> Env" where
  "cacheABI stringify env contractAddress abi =
     (case redisClient env of
        None \<Rightarrow> env
      | Some r \<Rightarrow>
          (let key = cacheKey contractAddress;
               env' = env\<lparr>requests := requests env @ [RedisSetEx key 86400 (stringify abi)]\<rparr>
           in case setEx r (clock env) key 86400 (stringify abi) of
                Inl error \<Rightarrow> env'
              | Inr r' \<Rightarrow> env'\<lparr>redisClient := Some r'\<rparr>))"

definition getCachedABI :: "JSON_parse \<Rightarrow> Env \<Rightarrow> string \<Rightarrow> json \<times> Env" where
  "getCachedABI parse env contractAddress =
     (case redisClient env of
        None \<Rightarrow> (JNull, env)
      | Some r \<Rightarrow>
          (let key = cacheKey contractAddress;
               env' = env\<lparr>requests := requests env @ [RedisGet key]\<rparr>
           in case redis_get r (clock env) key of
                Inl error \<Rightarrow> (JNull, env')
              | Inr None \<Rightarrow> (JNull, env')
              | Inr (Some cached) \<Rightarrow>
                  if cached = '''' then (JNull, env')
                  else (case parse cached of
                          Inl error \<Rightarrow> (JNull, env')
                        | Inr abi \<Rightarrow> (abi, env'))))"

definition fetchABI :: "JSON_parse \<Rightarrow> JSON_stringify \<Rightarrow> Env \<Rightarrow> string \<Rightarrow> json \<times> Env" where
  "fetchABI parse stringify env contractAddress =
     (case getCachedABI parse env contractAddress of
        (cachedABI, env1) \<Rightarrow>
          if truthy cachedABI then (cachedABI, env1)
          else
            (case fetchFromMonadScan parse env1 contractAddress of
               (scanned, env2) \<Rightarrow>
                 (case (if \<not> truthy scanned then fetchFromMonadExplorer env2 contractAddress
                        else (scanned, env2)) of
                    (abi, env3) \<Rightarrow>
                      (abi, if truthy abi then cacheABI stringify env3 contractAddress abi
                            else env3))))"

section \<open>AIService.analyzeDispute\<close>

text \<open>The test \<open>if (s)\<close> on a value that is a string or \<open>undefined\<close>.\<close>

definition truthyString :: "string option \<Rightarrow> bool" where
  "truthyString s = (case s of None \<Rightarrow> False | Some t \<Rightarrow> t \<noteq> '''')"

text \<open>\<open>value[0]\<close> on a parsed document that is not \<open>null\<close>.\<close>

fun firstElement :: "json \<Rightarrow> json option" where
  "firstElement (JArr (x # xs)) = Some x"
| "firstElement (JObj members) = map_of (rev members) ''0''"
| "firstElement (JStr (c # cs)) = Some (JStr [c])"
| "firstElement v = None"

text \<open>
  \<open>analyzeDispute\<close>, with \<open>apiKey\<close> the field read from the environment and \<open>posted\<close>
  the outcome of the one \<open>axios.post\<close> (it rejects, or resolves with \<open>response.data\<close>).
  The prompt is built inside the same \<open>try\<close> and nothing below depends on its text.
  \<open>attempt\<close> is the body of the \<open>try\<close>; the \<open>catch\<close> replaces whatever was thrown.
\<close>

definition attempt :: "string option \<Rightarrow> string + json \<Rightarrow> string + json option" where
  "attempt apiKey posted =
     (if \<not> truthyString apiKey then Inl ''AI API key not configured''
      else
        (case posted of
           Inl error \<Rightarrow> Inl error
         | Inr response_data \<Rightarrow>
             (case (if truthy response_data then getProp response_data ''choices'' else None) of
                None \<Rightarrow> Inl ''Invalid response from AI service''
              | Some choices \<Rightarrow>
                  if \<not> truthy choices then Inl ''Invalid response from AI service''
                  else
                    (case firstElement choices of
                       None \<Rightarrow> Inl ''Invalid response from AI service''
                     | Some choice \<Rightarrow>
                         if \<not> truthy choice then Inl ''Invalid response from AI service''
                         else
                           (case getProp choice ''message'' of
                              None \<Rightarrow> Inl ''Cannot read properties of undefined''
                            | Some JNull \<Rightarrow> Inl ''Cannot read properties of null''
                            | Some message \<Rightarrow> Inr (getProp message ''content''))))))"

definition analyzeDispute :: "string option \<Rightarrow> string + json \<Rightarrow> string + json option" where
  "analyzeDispute apiKey posted =
     (case attempt apiKey posted of
        Inl error \<Rightarrow> Inl ''AI service temporarily unavailable''
      | Inr aiResponse \<Rightarrow> Inr aiResponse)"

section \<open>BlockchainService.analyzeTransaction and the controller\<close>

record Block =
  timestamp :: int

record Provider =
  getTransaction :: "string \<Rightarrow> string + Transaction option"
  getTransactionReceipt :: "string \<Rightarrow> string + Receipt option"
  getBlock :: "int \<Rightarrow> string + Block option"

text \<open>
  An \<open>ethers.Contract\<close> over the ERC-20 ABI, by the outcome of each read-only call the
  service makes on it. \<open>balanceOf\<close> is printed with \<open>toString\<close>; \<open>decimals()\<close>
  resolves to a BigInt (ethers 6 returns every \<open>uintN\<close> as one), which the service
  stores as it is.
\<close>

record Erc20Contract =
  ct_balanceOf :: "string \<Rightarrow> string + string"
  ct_symbol :: "string + string"
  ct_name :: "string + string"
  ct_decimals :: "string + int"

record ContractState =
  balances :: "(string \<times> string) list"
  info_symbol :: "string option"
  info_name :: "string option"
  info_decimals :: "int option"

text \<open>
  \<open>getContractState\<close>. \<open>newContract\<close> stands for \<open>new ethers.Contract(...)\<close>, which
  throws on an address it cannot use. Every call has its own \<open>try\<close>; the outermost
  \<open>catch\<close> has nothing left to catch.
\<close>

definition getContractState ::
  "(string option \<Rightarrow> string + Erc20Contract) \<Rightarrow> string option \<Rightarrow> string \<Rightarrow> ContractState" where
  "getContractState newContract contractAddress senderAddress =
     (case newContract contractAddress of
        Inl error \<Rightarrow>
          \<lparr>balances = [], info_symbol = None, info_name = None, info_decimals = None\<rparr>
      | Inr erc20Contract \<Rightarrow>
          \<lparr>balances =
             (if senderAddress \<noteq> '''' then
                (case ct_balanceOf erc20Contract senderAddress of
                   Inl error \<Rightarrow> []
                 | Inr balance \<Rightarrow> [(senderAddress, balance)])
              else []),
           info_symbol = (case ct_symbol erc20Contract of Inl error \<Rightarrow> None | Inr s \<Rightarrow> Some s),
           info_name = (case ct_name erc20Contract of Inl error \<Rightarrow> None | Inr n \<Rightarrow> Some n),
           info_decimals =
             (case ct_decimals erc20Contract of Inl error \<Rightarrow> None | Inr d \<Rightarrow> Some d)\<rparr>)"

text \<open>
  \<open>new Date(ms).toISOString()\<close>: the ISO text of an instant, kept here as the instant
  in milliseconds. A \<open>Date\<close> holds at most 8.64e15 milliseconds either side of the epoch;
  beyond that \<open>toISOString\<close> throws a \<open>RangeError\<close>.
\<close>

definition toISOString :: "int \<Rightarrow> string + int" where
  "toISOString ms =
     (if \<bar>ms\<bar> \<le> 8640000000000000 then Inr ms else Inl ''Invalid time value'')"

text \<open>
  The \<open>transaction\<close> object of the result. Amounts stay numbers (the source prints them
  with \<open>toString\<close>) and \<open>blockTime\<close> is the block's time, \<open>None\<close> without a block.
\<close>

record TransactionSummary =
  ts_hash :: string
  ts_blockNumber :: int
  ts_blockTime :: "int option"
  ts_from :: string
  ts_to :: "string option"
  ts_value :: int
  ts_gasUsed :: int
  ts_status :: string
  ts_gasPrice :: int
  ts_nonce :: int

record AnalysisResult =
  ar_transaction :: TransactionSummary
  ar_events :: ParsedLogs
  ar_contractState :: ContractState
  ar_analysis :: Analysis

text \<open>Everything outside the repository that one request touches.\<close>

record Services =
  sv_provider :: Provider
  sv_erc20 :: Interface
  sv_erc721 :: Interface
  sv_getAddress :: "string \<Rightarrow> string + string"
  sv_newContract :: "string option \<Rightarrow> string + Erc20Contract"
  sv_apiKey :: "string option"
  sv_post :: "string + json"

text \<open>
  \<open>BlockchainService.analyzeTransaction\<close>: the \<open>catch\<close> logs and throws the same error
  again, so a rejected provider call, or a block time that cannot be printed, leaves the
  function with its error.
\<close>

definition analyzeTransaction :: "Services \<Rightarrow> string \<Rightarrow> string option \<Rightarrow> string + AnalysisResult" where
  "analyzeTransaction sv txHash contractAddress =
     (case getTransaction (sv_provider sv) txHash of
        Inl error \<Rightarrow> Inl error
      | Inr None \<Rightarrow> Inl ''Transaction not found''
      | Inr (Some transaction) \<Rightarrow>
          (case getTransactionReceipt (sv_provider sv) txHash of
             Inl error \<Rightarrow> Inl error
           | Inr None \<Rightarrow> Inl ''Transaction receipt not found''
           | Inr (Some receipt) \<Rightarrow>
               (case getBlock (sv_provider sv) (rc_blockNumber receipt) of
                  Inl error \<Rightarrow> Inl error
                | Inr block \<Rightarrow>
                    (let parsedLogs = parseLogs (sv_erc20 sv) (sv_erc721 sv) (sv_getAddress sv)
                                        (rc_logs receipt) contractAddress;
                         contractState = getContractState (sv_newContract sv) contractAddress
                                           (tx_from transaction)
                     in case (case block of
                                None \<Rightarrow> Inr None
                              | Some b \<Rightarrow>
                                  (case toISOString (timestamp b * 1000) of
                                     Inl error \<Rightarrow> Inl error
                                   | Inr printed \<Rightarrow> Inr (Some printed))) of
                          Inl error \<Rightarrow> Inl error
                        | Inr blockTime \<Rightarrow>
                            Inr \<lparr>ar_transaction =
                                  \<lparr>ts_hash = txHash,
                                   ts_blockNumber = rc_blockNumber receipt,
                                   ts_blockTime = blockTime,
                                   ts_from = tx_from transaction,
                                   ts_to = tx_to transaction,
                                   ts_value = tx_value transaction,
                                   ts_gasUsed = rc_gasUsed receipt,
                                   ts_status = (if rc_status receipt = Some 1 then ''success''
                                                else ''failed''),
                                   ts_gasPrice = tx_gasPrice transaction,
                                   ts_nonce = tx_nonce transaction\<rparr>,
                                 ar_events = parsedLogs,
                                 ar_contractState = contractState,
                                 ar_analysis =
                                   analyzeTransactionPattern transaction receipt
                                     parsedLogs\<rparr>))))"

record Request =
  rq_txHash :: "string option"
  rq_contractAddress :: "string option"
  rq_disputeDescription :: "string option"

record ResponseData =
  rd_txHash :: string
  rd_contractAddress :: "string option"
  rd_disputeDescription :: "string option"
  rd_aiAnalysis :: "json option"
  rd_transaction :: TransactionSummary
  rd_events :: ParsedLogs
  rd_contractState :: ContractState
  rd_analysis :: Analysis

record Response =
  rs_status :: nat
  rs_success :: bool
  rs_error :: "string option"
  rs_data :: "ResponseData option"

definition failure :: "nat \<Rightarrow> string \<Rightarrow> Response" where
  "failure code message =
     \<lparr>rs_status = code, rs_success = False, rs_error = Some message, rs_data = None\<rparr>"

text \<open>The outer \<open>catch\<close> of the controller (lines 80-101).\<close>

definition handleError :: "string \<Rightarrow> Response" where
  "handleError message =
     (if str_includes message ''Transaction not found'' then failure 404 ''Transaction not found''
      else if str_includes message ''AI service'' then failure 503 message
      else failure 500 ''Internal server error'')"

text \<open>
  Lines 21-43: the contract address of the request, or the \<open>to\<close> field of the
  transaction when the request gives none; \<open>Inl\<close> is the response of an early return.
\<close>

definition resolveContractAddress :: "Services \<Rightarrow> string \<Rightarrow> string option \<Rightarrow> Response + string option" where
  "resolveContractAddress sv txHash inputContractAddress =
     (if truthyString inputContractAddress then Inr inputContractAddress
      else
        (case getTransaction (sv_provider sv) txHash of
           Inl err \<Rightarrow> Inl (failure 500 ''Failed to fetch contract address from transaction'')
         | Inr None \<Rightarrow> Inl (failure 404 ''Transaction not found'')
         | Inr (Some transaction) \<Rightarrow> Inr (tx_to transaction)))"

text \<open>
  \<open>res.json\<close> of the success body (lines 66-78). Express serialises the body with
  \<open>JSON.stringify\<close> before it sends anything, and \<open>JSON.stringify\<close> throws a
  \<open>TypeError\<close> on a BigInt. The only BigInt the body can hold is
  \<open>contractState.contractInfo.decimals\<close>: every other amount was printed with
  \<open>toString\<close>. The call stands inside the controller's \<open>try\<close>.
\<close>

definition res_json :: "ResponseData \<Rightarrow> string + Response" where
  "res_json body =
     (case info_decimals (rd_contractState body) of
        Some bigint \<Rightarrow> Inl ''Do not know how to serialize a BigInt''
      | None \<Rightarrow>
          Inr \<lparr>rs_status = 200, rs_success = True, rs_error = None, rs_data = Some body\<rparr>)"

text \<open>The controller \<open>analyzeTransaction\<close> of the \<open>POST /analyze\<close> route.\<close>

definition analyzeController :: "Services \<Rightarrow> Request \<Rightarrow> Response" where
  "analyzeController sv req =
     (case rq_txHash req of
        None \<Rightarrow> failure 400 ''Transaction hash is required''
      | Some txHash \<Rightarrow>
          if txHash = '''' then failure 400 ''Transaction hash is required''
          else
            (case resolveContractAddress sv txHash (rq_contractAddress req) of
               Inl response \<Rightarrow> response
             | Inr contractAddress \<Rightarrow>
                 (case analyzeTransaction sv txHash contractAddress of
                    Inl message \<Rightarrow> handleError message
                  | Inr analysis \<Rightarrow>
                      (case (if truthyString (rq_disputeDescription req)
                             then analyzeDispute (sv_apiKey sv) (sv_post sv)
                             else Inr None) of
                         Inl message \<Rightarrow> handleError message
                       | Inr aiAnalysis \<Rightarrow>
                           (case res_json
                                   \<lparr>rd_txHash = txHash,
                                    rd_contractAddress = contractAddress,
                                    rd_disputeDescription =
                                      (if truthyString (rq_disputeDescription req)
                                       then rq_disputeDescription req else None),
                                    rd_aiAnalysis = aiAnalysis,
                                    rd_transaction = ar_transaction analysis,
                                    rd_events = ar_events analysis,
                                    rd_contractState = ar_contractState analysis,
                                    rd_analysis = ar_analysis analysis\<rparr> of
                              Inl message \<Rightarrow> handleError message
                            | Inr response \<Rightarrow> response)))))"

section \<open>Definitions written from the specification, for comparison with the code\<close>

text \<open>
  The specification's notion of a matched log on the standard path, in its words: an
  ERC-20 Transfer or Deposit match writes \<open>ERC20\<close>, an ERC-721 Transfer match writes
  \<open>ERC721\<close>, ERC-20 first; a log that matches no schema writes nothing. A match is a
  decoded event of that name whose arguments are all there.
\<close>

definition schemaMatch :: "Interface \<Rightarrow> Interface \<Rightarrow> RawLog \<Rightarrow> string option" where
  "schemaMatch erc20Interface erc721Interface log =
     (if (case erc20Interface log of
            Inr (Some d) \<Rightarrow> (ld_name d = ''Transfer'' \<and> 3 \<le> length (ld_args d))
                          \<or> (ld_name d = ''Deposit'' \<and> 2 \<le> length (ld_args d))
          | _ \<Rightarrow> False)
      then Some ''ERC20''
      else if (case erc721Interface log of
                 Inr (Some d) \<Rightarrow> ld_name d = ''Transfer'' \<and> 3 \<le> length (ld_args d)
               | _ \<Rightarrow> False)
      then Some ''ERC721''
      else None)"

section \<open>Example inputs\<close>

text \<open>
  Small stand-ins for the library decoders, and three logs of one receipt: an ERC-20
  transfer (two indexed addresses), an ERC-721 transfer (the token id indexed as well) and
  an event neither schema knows.
\<close>

definition transferTopic :: string where
  "transferTopic = ''0xddf252ad1be2c89b69c2b068fc378daa952ba7f163c4a11628f55a4df523b3ef''"

definition otherTopic :: string where
  "otherTopic = ''0x8c5be1e5ebec7d5bd14f71427d1e84f3dd0314c0f7b2291e5b200ac8c7c3b925''"

definition failedTopic :: string where
  "failedTopic = ''0x1f4b1a2c3d5e6f708192a3b4c5d6e7f8091a2b3c4d5e6f708192a3b4c5d6e7f8''"

definition topicA :: string where
  "topicA = ''0x000000000000000000000000aaaaaaaaaaaaaaaaaaaaaaaaaaaaaaaaaaaaaaaa''"

definition topicB :: string where
  "topicB = ''0x000000000000000000000000bbbbbbbbbbbbbbbbbbbbbbbbbbbbbbbbbbbbbbbb''"

definition topicC :: string where
  "topicC = ''0x0000000000000000000000000000000000000000000000000000000000000007''"

definition addrA :: string where
  "addrA = ''0xaaaaaaaaaaaaaaaaaaaaaaaaaaaaaaaaaaaaaaaa''"

definition addrB :: string where
  "addrB = ''0xbbbbbbbbbbbbbbbbbbbbbbbbbbbbbbbbbbbbbbbb''"

definition exampleERC20 :: Interface where
  "exampleERC20 log =
     (case log_topics log of
        [sig, a, b] \<Rightarrow>
          if sig = transferTopic
          then Inr (Some \<lparr>ld_name = ''Transfer'',
                          ld_args = [''0x'' @ drop 26 a, ''0x'' @ drop 26 b, log_data log]\<rparr>)
          else Inr None
      | [sig, a, b, c] \<Rightarrow> if sig = transferTopic then Inl ''data out-of-bounds'' else Inr None
      | _ \<Rightarrow> Inr None)"

definition exampleERC721 :: Interface where
  "exampleERC721 log =
     (case log_topics log of
        [sig, a, b, c] \<Rightarrow>
          if sig = transferTopic
          then Inr (Some \<lparr>ld_name = ''Transfer'',
                          ld_args = [''0x'' @ drop 26 a, ''0x'' @ drop 26 b, c]\<rparr>)
          else Inr None
      | _ \<Rightarrow> Inr None)"

definition exampleGetAddress :: "string \<Rightarrow> string + string" where
  "exampleGetAddress s = (if length s = 42 then Inr s else Inl ''invalid address'')"

definition log20 :: RawLog where
  "log20 = \<lparr>log_address = ''0xToken'', log_topics = [transferTopic, topicA, topicB],
            log_data = ''5'', logIndex = 0, blockNumber = 7\<rparr>"

definition log721 :: RawLog where
  "log721 = \<lparr>log_address = ''0xToken'', log_topics = [transferTopic, topicA, topicB, topicC],
             log_data = ''0x'', logIndex = 1, blockNumber = 7\<rparr>"

definition logOther :: RawLog where
  "logOther = \<lparr>log_address = ''0xToken'', log_topics = [otherTopic, topicA, topicB, topicC],
               log_data = ''0x'', logIndex = 2, blockNumber = 7\<rparr>"

text \<open>
  A stand-in for a custom ABI with two events,
  \<open>TransferFailed(address,address,uint256,string)\<close> and
  \<open>Approval(address,address,uint256)\<close>, and a log that emits the first. The log
  \<open>logOther\<close> above emits the second.
\<close>

definition exampleCustom :: Interface where
  "exampleCustom log =
     (case log_topics log of
        sig # rest \<Rightarrow>
          if sig = failedTopic
          then Inr (Some \<lparr>ld_name = ''TransferFailed'',
                          ld_args = [addrA, addrB, ''5'', ''insufficient balance'']\<rparr>)
          else if sig = otherTopic
          then Inr (Some \<lparr>ld_name = ''Approval'', ld_args = [addrA, addrB, ''7'']\<rparr>)
          else Inr None
      | [] \<Rightarrow> Inr None)"

definition exampleNewInterface :: "string list \<Rightarrow> string + Interface" where
  "exampleNewInterface abi = Inr exampleCustom"

definition exampleABI :: "string list" where
  "exampleABI = [''event TransferFailed(address,address,uint256,string)'',
                 ''event Approval(address,address,uint256)'']"

definition logFailed :: RawLog where
  "logFailed = \<lparr>log_address = ''0xToken'', log_topics = [failedTopic],
                log_data = ''0x'', logIndex = 3, blockNumber = 7\<rparr>"

text \<open>
  A custom ABI whose failure event has no reason,
  \<open>TransferFailed(address,address,uint256)\<close>, a log that emits it, and what the result
  object of ethers 6 does on an index past its last argument: it throws this
  \<open>RangeError\<close>.
\<close>

definition shortFailedTopic :: string where
  "shortFailedTopic = ''0x7d3c5e1f2a4b69788a9b0c1d2e3f40516273849506172839a4b5c6d7e8f90a1b''"

definition shortCustom :: Interface where
  "shortCustom log =
     (case log_topics log of
        sig # rest \<Rightarrow>
          if sig = shortFailedTopic
          then Inr (Some \<lparr>ld_name = ''TransferFailed'', ld_args = [addrA, addrB, ''5'']\<rparr>)
          else Inr None
      | [] \<Rightarrow> Inr None)"

definition shortNewInterface :: "string list \<Rightarrow> string + Interface" where
  "shortNewInterface abi = Inr shortCustom"

definition shortABI :: "string list" where
  "shortABI = [''event TransferFailed(address,address,uint256)'']"

definition logShortFailed :: RawLog where
  "logShortFailed = \<lparr>log_address = ''0xToken'', log_topics = [shortFailedTopic],
                     log_data = ''0x'', logIndex = 4, blockNumber = 7\<rparr>"

definition resultRangeError :: "string option" where
  "resultRangeError = Some ''out of result range''"

text \<open>
  A stand-in for the runtime's \<open>JSON\<close> that knows the empty ABI \<open>[]\<close>, a contract
  address in mixed case, and a state with an empty cache in which MonadScan answers
  "not verified" and MonadExplorer answers with the empty ABI. In the second state
  MonadScan has the (empty) ABI and MonadExplorer is down; in the third the cache holds
  the ABI already and both explorers are down.
\<close>

definition exampleParse :: JSON_parse where
  "exampleParse s = (if s = ''[]'' then Inr (JArr []) else Inl ''Unexpected token'')"

definition exampleStringify :: JSON_stringify where
  "exampleStringify j = (if j = JArr [] then ''[]'' else ''null'')"

definition exampleAddress :: string where
  "exampleAddress = ''0xAbCdEf0123456789aBcDeF0123456789AbCdEf01''"

definition exampleEnv :: Env where
  "exampleEnv =
     \<lparr>redisClient = Some \<lparr>entries = (\<lambda>key. None), up = True\<rparr>,
      clock = 1000,
      monadscan = (\<lambda>address. Inr \<lparr>sd_status = ''0'',
                                     sd_result = ''Contract source code not verified''\<rparr>),
      monadexplorer = (\<lambda>address. Inr (JObj [(''abi'', JArr [])])),
      requests = []\<rparr>"

definition verifiedEnv :: Env where
  "verifiedEnv =
     \<lparr>redisClient = Some \<lparr>entries = (\<lambda>key. None), up = True\<rparr>,
      clock = 1000,
      monadscan = (\<lambda>address. Inr \<lparr>sd_status = ''1'', sd_result = ''[]''\<rparr>),
      monadexplorer = (\<lambda>address. Inl ''connect ECONNREFUSED''),
      requests = []\<rparr>"

definition warmEnv :: Env where
  "warmEnv =
     \<lparr>redisClient =
        Some \<lparr>entries = (\<lambda>key. if key = ''abi:0xabcdef0123456789abcdef0123456789abcdef01''
                                 then Some (''[]'', 5000) else None),
              up = True\<rparr>,
      clock = 1000,
      monadscan = (\<lambda>address. Inl ''connect ECONNREFUSED''),
      monadexplorer = (\<lambda>address. Inl ''connect ECONNREFUSED''),
      requests = []\<rparr>"

text \<open>
  One mined transaction with its receipt, a provider that knows it, a contract whose
  \<open>decimals()\<close> reverts, and an AI endpoint that is not configured. The second
  provider rejects \<open>getBlock\<close>; the second contract is a token that answers
  \<open>decimals()\<close>.
\<close>

definition exampleTx :: Transaction where
  "exampleTx = \<lparr>tx_from = addrA, tx_to = Some addrB, tx_value = 0, tx_data = ''0xa9059cbb'',
                tx_gasPrice = 1, tx_nonce = 3\<rparr>"

definition exampleReceipt :: Receipt where
  "exampleReceipt = \<lparr>rc_blockNumber = 7, rc_gasUsed = 50000, rc_status = Some 1,
                     rc_logs = [log20]\<rparr>"

definition exampleProvider :: Provider where
  "exampleProvider =
     \<lparr>getTransaction = (\<lambda>hash. Inr (Some exampleTx)),
      getTransactionReceipt = (\<lambda>hash. Inr (Some exampleReceipt)),
      getBlock = (\<lambda>number. Inr (Some \<lparr>timestamp = 1700000000\<rparr>))\<rparr>"

definition flakyProvider :: Provider where
  "flakyProvider =
     \<lparr>getTransaction = (\<lambda>hash. Inr (Some exampleTx)),
      getTransactionReceipt = (\<lambda>hash. Inr (Some exampleReceipt)),
      getBlock = (\<lambda>number. Inl ''request timeout'')\<rparr>"

definition exampleContract :: Erc20Contract where
  "exampleContract =
     \<lparr>ct_balanceOf = (\<lambda>owner. Inr ''100''), ct_symbol = Inr ''TKN'',
      ct_name = Inr ''Token'', ct_decimals = Inl ''execution reverted''\<rparr>"

definition tokenContract :: Erc20Contract where
  "tokenContract =
     \<lparr>ct_balanceOf = (\<lambda>owner. Inr ''5000000000000000000''), ct_symbol = Inr ''USDC'',
      ct_name = Inr ''USD Coin'', ct_decimals = Inr 6\<rparr>"

definition exampleServices :: Services where
  "exampleServices =
     \<lparr>sv_provider = exampleProvider, sv_erc20 = exampleERC20, sv_erc721 = exampleERC721,
      sv_getAddress = exampleGetAddress, sv_newContract = (\<lambda>address. Inr exampleContract),
      sv_apiKey = None, sv_post = Inl ''connect ECONNREFUSED''\<rparr>"

definition flakyServices :: Services where
  "flakyServices =
     \<lparr>sv_provider = flakyProvider, sv_erc20 = exampleERC20, sv_erc721 = exampleERC721,
      sv_getAddress = exampleGetAddress, sv_newContract = (\<lambda>address. Inr exampleContract),
      sv_apiKey = None, sv_post = Inl ''connect ECONNREFUSED''\<rparr>"

definition tokenServices :: Services where
  "tokenServices =
     \<lparr>sv_provider = exampleProvider, sv_erc20 = exampleERC20, sv_erc721 = exampleERC721,
      sv_getAddress = exampleGetAddress, sv_newContract = (\<lambda>address. Inr tokenContract),
      sv_apiKey = None, sv_post = Inl ''connect ECONNREFUSED''\<rparr>"

definition plainRequest :: Request where
  "plainRequest = \<lparr>rq_txHash = Some ''0x5c504ed4'', rq_contractAddress = Some addrB,
                   rq_disputeDescription = None\<rparr>"

definition disputeRequest :: Request where
  "disputeRequest = \<lparr>rq_txHash = Some ''0x5c504ed4'', rq_contractAddress = Some addrB,
                     rq_disputeDescription = Some ''I never received my tokens''\<rparr>"

definition emptyRequest :: Request where
  "emptyRequest = \<lparr>rq_txHash = None, rq_contractAddress = None,
                   rq_disputeDescription = None\<rparr>"

section \<open>Properties of the log classifier\<close>

subsection \<open>Auxiliary facts\<close>

lemma andThen_simps [simp]: "andThen (Inl e) k = Inl e" "andThen (Inr v) k = k v"
  by (simp_all add: andThen_def)

lemma andThen_Inr: "andThen r k = Inr y \<Longrightarrow> \<exists>v. r = Inr v \<and> k v = Inr y"
  by (cases r) auto

lemma topicLoop_lists:
  "transfers (topicLoop ga i ts p) = transfers p \<and> deposits (topicLoop ga i ts p) = deposits p
   \<and> otherEvents (topicLoop ga i ts p) = otherEvents p
   \<and> contractType (topicLoop ga i ts p) = contractType p"
  by (induction ts arbitrary: i p) (auto split: sum.splits)

lemma tryERC20_False: "tryERC20 e20 log r = (p, False) \<Longrightarrow> p = r"
  by (auto simp: tryERC20_def split: sum.splits option.splits if_splits list.splits)

lemma tryERC721_False: "tryERC721 e log r = (p, False) \<Longrightarrow> p = r"
  by (auto simp: tryERC721_def split: sum.splits option.splits if_splits list.splits)

lemma tryERC20_True:
  "tryERC20 e20 log r = (p, True) \<Longrightarrow>
   otherEvents p = otherEvents r \<and>
   ((\<exists>x. transfers p = transfers r @ [x] \<and> tr_logIndex x = logIndex log \<and> deposits p = deposits r)
    \<or> (\<exists>x. deposits p = deposits r @ [x] \<and> dp_logIndex x = logIndex log
           \<and> transfers p = transfers r))"
  by (auto simp: tryERC20_def split: sum.splits option.splits if_splits list.splits)

lemma tryERC721_True:
  "tryERC721 e log r = (p, True) \<Longrightarrow>
   otherEvents p = otherEvents r \<and> deposits p = deposits r \<and>
   (\<exists>x. transfers p = transfers r @ [x] \<and> tr_logIndex x = logIndex log)"
  by (auto simp: tryERC721_def split: sum.splits option.splits if_splits list.splits)

lemma step_cases:
  "parseLog_step e20 e721 ga r log =
    (if snd (tryERC20 e20 log r) then fst (tryERC20 e20 log r)
     else if snd (tryERC721 e721 log r) then fst (tryERC721 e721 log r)
     else rawFallback ga log r)"
proof (cases "tryERC20 e20 log r")
  case first: (Pair p1 b1)
  show ?thesis
  proof (cases b1)
    case True
    with first show ?thesis by (simp add: parseLog_step_def)
  next
    case False
    with first have p1: "p1 = r" by (auto dest: tryERC20_False)
    show ?thesis
    proof (cases "tryERC721 e721 log r")
      case (Pair p2 b2)
      then have "\<not> b2 \<Longrightarrow> p2 = r" by (cases b2) (auto dest: tryERC721_False)
      with Pair first False p1 show ?thesis
        by (cases b2) (simp_all add: parseLog_step_def)
    qed
  qed
qed

lemma step_buckets:
  "(\<exists>x. transfers (parseLog_step e20 e721 ga r log) = transfers r @ [x]
        \<and> tr_logIndex x = logIndex log
        \<and> deposits (parseLog_step e20 e721 ga r log) = deposits r
        \<and> otherEvents (parseLog_step e20 e721 ga r log) = otherEvents r)
   \<or> (\<exists>x. deposits (parseLog_step e20 e721 ga r log) = deposits r @ [x]
        \<and> dp_logIndex x = logIndex log
        \<and> transfers (parseLog_step e20 e721 ga r log) = transfers r
        \<and> otherEvents (parseLog_step e20 e721 ga r log) = otherEvents r)
   \<or> (\<exists>x. otherEvents (parseLog_step e20 e721 ga r log) = otherEvents r @ [x]
        \<and> ev_logIndex x = logIndex log
        \<and> transfers (parseLog_step e20 e721 ga r log) = transfers r
        \<and> deposits (parseLog_step e20 e721 ga r log) = deposits r)"
proof (cases "snd (tryERC20 e20 log r)")
  case True
  then have "tryERC20 e20 log r = (fst (tryERC20 e20 log r), True)"
    by (cases "tryERC20 e20 log r") simp
  from tryERC20_True[OF this] True show ?thesis by (auto simp: step_cases)
next
  case n20: False
  show ?thesis
  proof (cases "snd (tryERC721 e721 log r)")
    case True
    then have "tryERC721 e721 log r = (fst (tryERC721 e721 log r), True)"
      by (cases "tryERC721 e721 log r") simp
    from tryERC721_True[OF this] True n20 show ?thesis by (auto simp: step_cases)
  next
    case False
    with n20 show ?thesis by (simp add: step_cases rawFallback_def Let_def topicLoop_lists)
  qed
qed

lemma step_count:
  "length (transfers (parseLog_step e20 e721 ga r log))
     + length (deposits (parseLog_step e20 e721 ga r log))
     + length (otherEvents (parseLog_step e20 e721 ga r log))
   = Suc (length (transfers r) + length (deposits r) + length (otherEvents r))"
  using step_buckets[of e20 e721 ga r log] by auto

lemma foldl_count:
  "length (transfers (foldl (parseLog_step e20 e721 ga) r logs))
     + length (deposits (foldl (parseLog_step e20 e721 ga) r logs))
     + length (otherEvents (foldl (parseLog_step e20 e721 ga) r logs))
   = length (transfers r) + length (deposits r) + length (otherEvents r) + length logs"
  by (induction logs arbitrary: r) (simp_all add: step_count)

lemma parseLogs_count:
  "length (transfers (parseLogs e20 e721 ga logs ca))
     + length (deposits (parseLogs e20 e721 ga logs ca))
     + length (otherEvents (parseLogs e20 e721 ga logs ca)) = length logs"
  by (simp add: parseLogs_def foldl_count emptyParsedLogs_def)

lemma categorize_buckets:
  assumes "categorize oob d log r = Inr r'"
  shows "parsedEvents r' = parsedEvents r \<and>
   ((abi_transfers r' = abi_transfers r \<and> failures r' = failures r
       \<and> partialTransfers r' = partialTransfers r)
    \<or> (\<exists>x. abi_transfers r' = abi_transfers r @ [x] \<and> at_logIndex x = logIndex log
           \<and> failures r' = failures r \<and> partialTransfers r' = partialTransfers r)
    \<or> (\<exists>x. failures r' = failures r @ [x] \<and> fl_logIndex x = logIndex log
           \<and> abi_transfers r' = abi_transfers r \<and> partialTransfers r' = partialTransfers r)
    \<or> (\<exists>x. partialTransfers r' = partialTransfers r @ [x] \<and> pt_logIndex x = logIndex log
           \<and> abi_transfers r' = abi_transfers r \<and> failures r' = failures r))"
  using assms unfolding categorize_def Let_def
  by (auto split: if_splits dest!: andThen_Inr)

lemma abi_step_buckets:
  "(abi_transfers (parseABI_step oob ci r log) = abi_transfers r
      \<and> failures (parseABI_step oob ci r log) = failures r
      \<and> partialTransfers (parseABI_step oob ci r log) = partialTransfers r)
   \<or> (\<exists>x. abi_transfers (parseABI_step oob ci r log) = abi_transfers r @ [x]
         \<and> at_logIndex x = logIndex log
         \<and> failures (parseABI_step oob ci r log) = failures r
         \<and> partialTransfers (parseABI_step oob ci r log) = partialTransfers r)
   \<or> (\<exists>x. failures (parseABI_step oob ci r log) = failures r @ [x]
         \<and> fl_logIndex x = logIndex log
         \<and> abi_transfers (parseABI_step oob ci r log) = abi_transfers r
         \<and> partialTransfers (parseABI_step oob ci r log) = partialTransfers r)
   \<or> (\<exists>x. partialTransfers (parseABI_step oob ci r log) = partialTransfers r @ [x]
         \<and> pt_logIndex x = logIndex log
         \<and> abi_transfers (parseABI_step oob ci r log) = abi_transfers r
         \<and> failures (parseABI_step oob ci r log) = failures r)"
proof (cases "ci log")
  case (Inl e)
  then show ?thesis by (simp add: parseABI_step_def pushUnknown_def)
next
  case (Inr decoded)
  show ?thesis
  proof (cases decoded)
    case None
    with Inr show ?thesis by (simp add: parseABI_step_def)
  next
    case (Some d)
    show ?thesis
    proof (cases "categorize oob d log r")
      case (Inl e)
      with Inr Some show ?thesis by (simp add: parseABI_step_def pushUnknown_def)
    next
      case c: (Inr r')
      from categorize_buckets[OF c] c Inr Some show ?thesis
        by (simp add: parseABI_step_def)
    qed
  qed
qed

lemma abi_step_count:
  "length (abi_transfers (parseABI_step oob ci r log))
     + length (failures (parseABI_step oob ci r log))
     + length (partialTransfers (parseABI_step oob ci r log))
   \<le> Suc (length (abi_transfers r) + length (failures r) + length (partialTransfers r))"
  using abi_step_buckets[of oob ci r log] by auto

lemma abi_foldl_count:
  "length (abi_transfers (foldl (parseABI_step oob ci) r logs))
     + length (failures (foldl (parseABI_step oob ci) r logs))
     + length (partialTransfers (foldl (parseABI_step oob ci) r logs))
   \<le> length (abi_transfers r) + length (failures r) + length (partialTransfers r) + length logs"
proof (induction logs arbitrary: r)
  case Nil
  then show ?case by simp
next
  case (Cons l logs)
  show ?case
    using Cons[of "parseABI_step oob ci r l"] abi_step_count[of oob ci r l] by simp
qed

lemma abi_count:
  "length (abi_transfers (parseLogsWithABI oob ni logs ca abi))
     + length (failures (parseLogsWithABI oob ni logs ca abi))
     + length (partialTransfers (parseLogsWithABI oob ni logs ca abi)) \<le> length logs"
  using abi_foldl_count[of oob _ emptyParsedABILogs logs]
  by (auto simp: parseLogsWithABI_def emptyParsedABILogs_def split: sum.splits)

lemma topicLoop_ge3:
  "3 \<le> i \<Longrightarrow> senderAddresses (topicLoop ga i ts p) = senderAddresses p
     \<and> receiverAddresses (topicLoop ga i ts p) = receiverAddresses p"
  by (induction ts arbitrary: i p) (auto split: sum.splits)

lemma topicLoop_from1:
  "senderAddresses (topicLoop ga 1 ts p) =
     (if 0 < length ts \<and> length (ts ! 0) = 66
      then (case ga (''0x'' @ drop 26 (ts ! 0)) of
              Inl error \<Rightarrow> senderAddresses p
            | Inr address \<Rightarrow> Set_add address (senderAddresses p))
      else senderAddresses p)
   \<and> receiverAddresses (topicLoop ga 1 ts p) =
     (if 1 < length ts \<and> length (ts ! 1) = 66
      then (case ga (''0x'' @ drop 26 (ts ! 1)) of
              Inl error \<Rightarrow> receiverAddresses p
            | Inr address \<Rightarrow> Set_add address (receiverAddresses p))
      else receiverAddresses p)"
proof (cases ts)
  case Nil
  then show ?thesis by simp
next
  case c1: (Cons t1 ts1)
  show ?thesis
  proof (cases ts1)
    case Nil
    with c1 show ?thesis by (simp split: sum.splits)
  next
    case (Cons t2 ts2)
    have s2: "Suc (Suc (Suc 0)) = 3" by simp
    from c1 Cons show ?thesis
      using topicLoop_ge3[of 3 ga ts2]
      by (simp add: s2 split: sum.splits)
  qed
qed

lemma rawFallback_addresses:
  "senderAddresses (rawFallback ga log r) =
     (if 1 < length (log_topics log) \<and> length (log_topics log ! 1) = 66
      then (case ga (''0x'' @ drop 26 (log_topics log ! 1)) of
              Inl error \<Rightarrow> senderAddresses r
            | Inr address \<Rightarrow> Set_add address (senderAddresses r))
      else senderAddresses r)
   \<and> receiverAddresses (rawFallback ga log r) =
     (if 2 < length (log_topics log) \<and> length (log_topics log ! 2) = 66
      then (case ga (''0x'' @ drop 26 (log_topics log ! 2)) of
              Inl error \<Rightarrow> receiverAddresses r
            | Inr address \<Rightarrow> Set_add address (receiverAddresses r))
      else receiverAddresses r)"
proof -
  have a: "(0 < length (drop 1 (log_topics log))) = (1 < length (log_topics log))" by auto
  have b: "(1 < length (drop 1 (log_topics log))) = (2 < length (log_topics log))" by auto
  have c: "1 < length (log_topics log) \<Longrightarrow> drop 1 (log_topics log) ! 0 = log_topics log ! 1"
    by simp
  have d: "2 < length (log_topics log) \<Longrightarrow> drop 1 (log_topics log) ! 1 = log_topics log ! 2"
    by (simp add: numeral_2_eq_2)
  show ?thesis
    using topicLoop_from1[of ga "drop 1 (log_topics log)" r] a b c d
    by (auto simp add: rawFallback_def Let_def)
qed

lemma tryERC20_snd:
  "snd (tryERC20 e20 log r) =
     (case e20 log of
        Inr (Some d) \<Rightarrow> (ld_name d = ''Transfer'' \<and> 3 \<le> length (ld_args d))
                      \<or> (ld_name d = ''Deposit'' \<and> 2 \<le> length (ld_args d))
      | _ \<Rightarrow> False)"
  by (auto simp: tryERC20_def split: sum.splits option.splits list.splits)

lemma tryERC721_snd:
  "snd (tryERC721 e log r) =
     (case e log of
        Inr (Some d) \<Rightarrow> ld_name d = ''Transfer'' \<and> 3 \<le> length (ld_args d)
      | _ \<Rightarrow> False)"
  by (auto simp: tryERC721_def split: sum.splits option.splits list.splits)

lemma tryERC20_type:
  "snd (tryERC20 e20 log r) \<Longrightarrow> contractType (fst (tryERC20 e20 log r)) = ''ERC20''"
  by (auto simp: tryERC20_def split: sum.splits option.splits list.splits if_splits)

lemma tryERC721_type:
  "snd (tryERC721 e log r) \<Longrightarrow> contractType (fst (tryERC721 e log r)) = ''ERC721''"
  by (auto simp: tryERC721_def split: sum.splits option.splits list.splits if_splits)

lemma step_contractType:
  "contractType (parseLog_step e20 e721 ga r log) =
     (case schemaMatch e20 e721 log of Some t \<Rightarrow> t | None \<Rightarrow> contractType r)"
  unfolding step_cases schemaMatch_def
  using tryERC20_snd[of e20 log r] tryERC721_snd[of e721 log r]
    tryERC20_type[of e20 log r] tryERC721_type[of e721 log r]
  by (simp add: rawFallback_def Let_def topicLoop_lists)

lemma foldl_contractType:
  "contractType (foldl (parseLog_step e20 e721 ga) r logs) =
     last (contractType r # List.map_filter (schemaMatch e20 e721) logs)"
proof (induction logs arbitrary: r)
  case Nil
  then show ?case by simp
next
  case (Cons l logs)
  show ?case
    by (cases "schemaMatch e20 e721 l") (simp_all add: Cons step_contractType)
qed

text \<open>The example decoders on the example logs.\<close>

lemma example_decodes:
  "exampleERC20 log20 = Inr (Some \<lparr>ld_name = ''Transfer'', ld_args = [addrA, addrB, ''5'']\<rparr>)"
  "exampleERC20 log721 = Inl ''data out-of-bounds''"
  "exampleERC721 log721 = Inr (Some \<lparr>ld_name = ''Transfer'', ld_args = [addrA, addrB, topicC]\<rparr>)"
  "exampleERC20 logOther = Inr None"
  "exampleERC721 logOther = Inr None"
  "exampleCustom logOther =
     Inr (Some \<lparr>ld_name = ''Approval'', ld_args = [addrA, addrB, ''7'']\<rparr>)"
  "exampleCustom logFailed =
     Inr (Some \<lparr>ld_name = ''TransferFailed'',
                 ld_args = [addrA, addrB, ''5'', ''insufficient balance'']\<rparr>)"
  by (simp_all add: exampleERC20_def exampleERC721_def exampleCustom_def log20_def log721_def
      logOther_def logFailed_def transferTopic_def otherTopic_def failedTopic_def
      topicA_def topicB_def addrA_def addrB_def)

lemma example_fields:
  "logIndex log20 = 0" "blockNumber log20 = 7"
  "logIndex log721 = 1" "blockNumber log721 = 7"
  "logIndex logOther = 2" "blockNumber logOther = 7"
  "logIndex logFailed = 3" "blockNumber logFailed = 7"
  "log_topics logOther = [otherTopic, topicA, topicB, topicC]"
  by (simp_all add: log20_def log721_def logOther_def logFailed_def)

subsection \<open>Claims about the classifier and the pattern analyzer\<close>

text \<open>
  Claim C1, as amended. On the standard path every log is placed in exactly one of
  \<open>transfers\<close>, \<open>deposits\<close> and \<open>otherEvents\<close> (one list grows by one record that
  carries the log's index, the two others stay as they are), and the three lengths sum to
  the number of input logs. On the custom-ABI path the result has the categories
  \<open>transfers\<close>, \<open>failures\<close> and \<open>partialTransfers\<close> only: a log is placed in at most
  one of them, and the three lengths sum to at most the number of input logs.
\<close>

theorem classification_coverage:
  fixes erc20Interface erc721Interface contractInterface :: Interface
    and parsedLogs step :: ParsedLogs
    and abiLogs abiStep :: ParsedABILogs
    and newInterface :: "'abi \<Rightarrow> string + Interface"
    and getAddress :: "string \<Rightarrow> string + string"
    and log :: RawLog
    and oob :: "string option"
  defines "step \<equiv> parseLog_step erc20Interface erc721Interface getAddress parsedLogs log"
    and "abiStep \<equiv> parseABI_step oob contractInterface abiLogs log"
  shows
    "((\<exists>x. transfers step = transfers parsedLogs @ [x] \<and> tr_logIndex x = logIndex log
          \<and> deposits step = deposits parsedLogs \<and> otherEvents step = otherEvents parsedLogs)
      \<or> (\<exists>x. deposits step = deposits parsedLogs @ [x] \<and> dp_logIndex x = logIndex log
          \<and> transfers step = transfers parsedLogs \<and> otherEvents step = otherEvents parsedLogs)
      \<or> (\<exists>x. otherEvents step = otherEvents parsedLogs @ [x] \<and> ev_logIndex x = logIndex log
          \<and> transfers step = transfers parsedLogs \<and> deposits step = deposits parsedLogs))
     \<and> length (transfers (parseLogs erc20Interface erc721Interface getAddress logs contractAddress))
         + length (deposits (parseLogs erc20Interface erc721Interface getAddress logs contractAddress))
         + length (otherEvents (parseLogs erc20Interface erc721Interface getAddress logs contractAddress))
       = length logs
     \<and> ((abi_transfers abiStep = abi_transfers abiLogs \<and> failures abiStep = failures abiLogs
            \<and> partialTransfers abiStep = partialTransfers abiLogs)
         \<or> (\<exists>x. abi_transfers abiStep = abi_transfers abiLogs @ [x] \<and> at_logIndex x = logIndex log
              \<and> failures abiStep = failures abiLogs
              \<and> partialTransfers abiStep = partialTransfers abiLogs)
         \<or> (\<exists>x. failures abiStep = failures abiLogs @ [x] \<and> fl_logIndex x = logIndex log
              \<and> abi_transfers abiStep = abi_transfers abiLogs
              \<and> partialTransfers abiStep = partialTransfers abiLogs)
         \<or> (\<exists>x. partialTransfers abiStep = partialTransfers abiLogs @ [x]
              \<and> pt_logIndex x = logIndex log
              \<and> abi_transfers abiStep = abi_transfers abiLogs
              \<and> failures abiStep = failures abiLogs))
     \<and> length (abi_transfers (parseLogsWithABI oob newInterface logs address abi))
         + length (failures (parseLogsWithABI oob newInterface logs address abi))
         + length (partialTransfers (parseLogsWithABI oob newInterface logs address abi))
       \<le> length logs"
  unfolding step_def abiStep_def
  using step_buckets[of erc20Interface erc721Interface getAddress parsedLogs log]
    parseLogs_count[of erc20Interface erc721Interface getAddress logs contractAddress]
    abi_step_buckets[of oob contractInterface abiLogs log]
    abi_count[of oob newInterface logs address abi]
  by blast

theorem classification_coverage_witness:
  "length (transfers (parseLogs exampleERC20 exampleERC721 exampleGetAddress
                        [log20, log721, logOther] None))
   + length (deposits (parseLogs exampleERC20 exampleERC721 exampleGetAddress
                        [log20, log721, logOther] None))
   + length (otherEvents (parseLogs exampleERC20 exampleERC721 exampleGetAddress
                        [log20, log721, logOther] None)) = 3
   \<and> length (abi_transfers (parseLogsWithABI None exampleNewInterface [logFailed, logOther]
                        ''0xToken'' exampleABI))
     + length (failures (parseLogsWithABI None exampleNewInterface [logFailed, logOther]
                        ''0xToken'' exampleABI))
     + length (partialTransfers (parseLogsWithABI None exampleNewInterface [logFailed, logOther]
                        ''0xToken'' exampleABI)) \<le> 2"
proof -
  note std = classification_coverage[where erc20Interface = exampleERC20
      and erc721Interface = exampleERC721 and getAddress = exampleGetAddress
      and parsedLogs = emptyParsedLogs and log = log20
      and logs = "[log20, log721, logOther]" and contractAddress = None
      and contractInterface = exampleCustom and abiLogs = emptyParsedABILogs
      and newInterface = exampleNewInterface and oob = None and address = "''0xToken''"
      and abi = exampleABI]
  note cus = classification_coverage[where erc20Interface = exampleERC20
      and erc721Interface = exampleERC721 and getAddress = exampleGetAddress
      and parsedLogs = emptyParsedLogs and log = log20
      and logs = "[logFailed, logOther]" and contractAddress = None
      and contractInterface = exampleCustom and abiLogs = emptyParsedABILogs
      and newInterface = exampleNewInterface and oob = None and address = "''0xToken''"
      and abi = exampleABI]
  show ?thesis
    using std[THEN conjunct2, THEN conjunct1] cus[THEN conjunct2, THEN conjunct2, THEN conjunct2]
    by simp
qed

text \<open>
  The claim as stated fails on the custom-ABI path: an event the custom ABI decodes
  whose name does not contain \<open>transfer\<close> (here \<open>Approval\<close>) is appended to
  \<open>parsedEvents\<close> and to no category list, so one input log gives category lengths
  that sum to zero.
\<close>

theorem abi_path_not_total:
  "length (abi_transfers (parseLogsWithABI None exampleNewInterface [logOther] ''0xToken'' exampleABI))
   + length (failures (parseLogsWithABI None exampleNewInterface [logOther] ''0xToken'' exampleABI))
   + length (partialTransfers (parseLogsWithABI None exampleNewInterface [logOther] ''0xToken'' exampleABI))
   \<noteq> length [logOther]
   \<and> map ed_name
       (parsedEvents (parseLogsWithABI None exampleNewInterface [logOther] ''0xToken'' exampleABI))
     = [''Approval'']"
  by (simp add: parseLogsWithABI_def exampleNewInterface_def parseABI_step_def example_decodes
      emptyParsedABILogs_def categorize_def toLowerCase_def lowerChar_def)

text \<open>
  Claim C3. The summary type is chosen by the first rule that applies, in the order
  transfer record present, deposit record present, calldata neither empty nor \<open>0x\<close>,
  native value above zero, otherwise \<open>unknown\<close>; the success flag says whether the
  receipt's status is 1.
\<close>

theorem analyzeTransactionPattern_priority:
  "an_type (analyzeTransactionPattern transaction receipt parsedLogs) =
     (if transfers parsedLogs \<noteq> [] then ''transfer''
      else if deposits parsedLogs \<noteq> [] then ''deposit''
      else if tx_data transaction \<noteq> '''' \<and> tx_data transaction \<noteq> ''0x'' then ''contract_call''
      else if tx_value transaction > 0 then ''eth_transfer''
      else ''unknown'')
   \<and> an_success (analyzeTransactionPattern transaction receipt parsedLogs)
       = (rc_status receipt = Some 1)"
  by (simp add: analyzeTransactionPattern_def Let_def)

theorem analyzeTransactionPattern_priority_witness:
  "an_type (analyzeTransactionPattern
      \<lparr>tx_from = addrA, tx_to = Some addrB, tx_value = 10, tx_data = ''0x'',
       tx_gasPrice = 1, tx_nonce = 0\<rparr>
      \<lparr>rc_blockNumber = 7, rc_gasUsed = 21000, rc_status = Some 1, rc_logs = []\<rparr>
      emptyParsedLogs) = ''eth_transfer''
   \<and> an_success (analyzeTransactionPattern
      \<lparr>tx_from = addrA, tx_to = Some addrB, tx_value = 10, tx_data = ''0x'',
       tx_gasPrice = 1, tx_nonce = 0\<rparr>
      \<lparr>rc_blockNumber = 7, rc_gasUsed = 21000, rc_status = Some 1, rc_logs = []\<rparr>
      emptyParsedLogs)"
  using analyzeTransactionPattern_priority[of
      "\<lparr>tx_from = addrA, tx_to = Some addrB, tx_value = 10, tx_data = ''0x'',
        tx_gasPrice = 1, tx_nonce = 0\<rparr>"
      "\<lparr>rc_blockNumber = 7, rc_gasUsed = 21000, rc_status = Some 1, rc_logs = []\<rparr>"
      emptyParsedLogs]
  by (simp add: emptyParsedLogs_def)

text \<open>
  The categorisation on the custom-ABI path when the arguments a record needs can be read:
  a decoded event whose lower-cased name contains \<open>transfer\<close> gives a failure record
  when the name contains \<open>failed\<close>, else a partialTransfer record when it contains
  \<open>partial\<close>, else a transfer record, with the fields taken from the arguments in
  order, and the event is appended to \<open>parsedEvents\<close> as well.
\<close>

lemma categorize_readable_arguments:
  assumes "contractInterface log = Inr (Some parsedLog)"
    and "str_includes (toLowerCase (ld_name parsedLog)) ''transfer''"
    and "argString oob (ld_args parsedLog) 0 = Inr arg0"
    and "argString oob (ld_args parsedLog) 1 = Inr arg1"
    and "argString oob (ld_args parsedLog) 2 = Inr arg2"
    and "str_includes (toLowerCase (ld_name parsedLog)) ''failed'' \<or>
         str_includes (toLowerCase (ld_name parsedLog)) ''partial'' \<Longrightarrow>
         argString oob (ld_args parsedLog) 3 = Inr arg3"
  shows "parseABI_step oob contractInterface parsedLogs log =
     (if str_includes (toLowerCase (ld_name parsedLog)) ''failed'' then
        parsedLogs\<lparr>failures := failures parsedLogs @
            [\<lparr>fl_type = ld_name parsedLog, fl_from = arg0, fl_to = arg1, fl_amount = arg2,
              fl_reason = arg3, fl_logIndex = logIndex log\<rparr>],
          parsedEvents := parsedEvents parsedLogs @
            [\<lparr>ed_name = ld_name parsedLog, ed_args = ld_args parsedLog,
              ed_logIndex = logIndex log, ed_error = None\<rparr>]\<rparr>
      else if str_includes (toLowerCase (ld_name parsedLog)) ''partial'' then
        parsedLogs\<lparr>partialTransfers := partialTransfers parsedLogs @
            [\<lparr>pt_type = ld_name parsedLog, pt_from = arg0, pt_to = arg1, pt_requested = arg2,
              pt_sent = arg3, pt_logIndex = logIndex log\<rparr>],
          parsedEvents := parsedEvents parsedLogs @
            [\<lparr>ed_name = ld_name parsedLog, ed_args = ld_args parsedLog,
              ed_logIndex = logIndex log, ed_error = None\<rparr>]\<rparr>
      else
        parsedLogs\<lparr>abi_transfers := abi_transfers parsedLogs @
            [\<lparr>at_type = ld_name parsedLog, at_from = arg0, at_to = arg1, at_amount = arg2,
              at_logIndex = logIndex log\<rparr>],
          parsedEvents := parsedEvents parsedLogs @
            [\<lparr>ed_name = ld_name parsedLog, ed_args = ld_args parsedLog,
              ed_logIndex = logIndex log, ed_error = None\<rparr>]\<rparr>)"
  using assms by (simp add: parseABI_step_def categorize_def Let_def)

lemma categorize_readable_arguments_example:
  "parseABI_step (Some ''out of result range'') exampleCustom emptyParsedABILogs logFailed =
     emptyParsedABILogs
       \<lparr>failures :=
          [\<lparr>fl_type = ''TransferFailed'', fl_from = Some addrA, fl_to = Some addrB,
            fl_amount = Some ''5'', fl_reason = Some ''insufficient balance'',
            fl_logIndex = 3\<rparr>],
        parsedEvents :=
          [\<lparr>ed_name = ''TransferFailed'',
            ed_args = [addrA, addrB, ''5'', ''insufficient balance''],
            ed_logIndex = 3, ed_error = None\<rparr>]\<rparr>"
proof -
  let ?d = "\<lparr>ld_name = ''TransferFailed'',
              ld_args = [addrA, addrB, ''5'', ''insufficient balance'']\<rparr>"
  let ?oob = "Some ''out of result range''"
  have dec: "exampleCustom logFailed = Inr (Some ?d)" by (simp add: example_decodes)
  have tr: "str_includes (toLowerCase (ld_name ?d)) ''transfer''"
    by (simp add: toLowerCase_def lowerChar_def)
  have fl: "str_includes (toLowerCase (ld_name ?d)) ''failed''"
    by (simp add: toLowerCase_def lowerChar_def)
  have a0: "argString ?oob (ld_args ?d) 0 = Inr (Some addrA)" by (simp add: argString_def)
  have a1: "argString ?oob (ld_args ?d) 1 = Inr (Some addrB)" by (simp add: argString_def)
  have a2: "argString ?oob (ld_args ?d) 2 = Inr (Some ''5'')" by (simp add: argString_def)
  have a3: "argString ?oob (ld_args ?d) 3 = Inr (Some ''insufficient balance'')"
    by (simp add: argString_def)
  show ?thesis
    using categorize_readable_arguments[where contractInterface = exampleCustom
        and log = logFailed and parsedLog = ?d and oob = ?oob
        and parsedLogs = emptyParsedABILogs, OF dec tr a0 a1 a2 a3] fl
    by (simp add: emptyParsedABILogs_def example_fields)
qed

text \<open>
  Claim C4. The claim asks that every decoded event whose name contains \<open>transfer\<close>
  and \<open>failed\<close> becomes a failure record, with \<open>reason\<close> taken from the fourth
  argument, and the source writes \<open>parsedLog.args[3]?.toString()\<close> for an argument
  that may not be there. The code does not get that far for an event with fewer
  arguments: the result object of ethers 6 throws a \<open>RangeError\<close> on the read past
  its last argument, before \<open>?.\<close> applies, the per-log \<open>catch\<close> takes over, and the
  decoded \<open>TransferFailed(address,address,uint256)\<close> event gets no failure record and
  is listed as \<open>Unknown\<close> in \<open>parsedEvents\<close>.
\<close>

theorem short_transfer_event_unclassified:
  "failures (parseLogsWithABI resultRangeError shortNewInterface [logShortFailed]
               ''0xToken'' shortABI) = []
   \<and> partialTransfers (parseLogsWithABI resultRangeError shortNewInterface [logShortFailed]
               ''0xToken'' shortABI) = []
   \<and> abi_transfers (parseLogsWithABI resultRangeError shortNewInterface [logShortFailed]
               ''0xToken'' shortABI) = []
   \<and> parsedEvents (parseLogsWithABI resultRangeError shortNewInterface [logShortFailed]
               ''0xToken'' shortABI) =
       [\<lparr>ed_name = ''Unknown'', ed_args = [], ed_logIndex = 4,
         ed_error = Some ''out of result range''\<rparr>]
   \<and> shortCustom logShortFailed =
       Inr (Some \<lparr>ld_name = ''TransferFailed'', ld_args = [addrA, addrB, ''5'']\<rparr>)"
proof -
  have decoded: "shortCustom logShortFailed =
      Inr (Some \<lparr>ld_name = ''TransferFailed'', ld_args = [addrA, addrB, ''5'']\<rparr>)"
    by (simp add: shortCustom_def logShortFailed_def)
  have thrown: "categorize resultRangeError
        \<lparr>ld_name = ''TransferFailed'', ld_args = [addrA, addrB, ''5'']\<rparr>
        logShortFailed emptyParsedABILogs = Inl ''out of result range''"
    by (simp add: categorize_def Let_def toLowerCase_def lowerChar_def argString_def
        resultRangeError_def)
  have step: "parseABI_step resultRangeError shortCustom emptyParsedABILogs logShortFailed =
      pushUnknown ''out of result range'' logShortFailed emptyParsedABILogs"
    by (simp add: parseABI_step_def decoded thrown)
  have run: "parseLogsWithABI resultRangeError shortNewInterface [logShortFailed]
        ''0xToken'' shortABI =
      pushUnknown ''out of result range'' logShortFailed emptyParsedABILogs"
    by (simp add: parseLogsWithABI_def shortNewInterface_def step)
  have index: "logIndex logShortFailed = 4" by (simp add: logShortFailed_def)
  show ?thesis
    by (simp add: run pushUnknown_def emptyParsedABILogs_def decoded index)
qed

text \<open>
  Claim C5. On the standard path the ERC-20 schema is tried first and the ERC-721 schema
  only when the ERC-20 block left \<open>parsed\<close> false: the step is the ERC-20 result when
  that block matched (whatever the ERC-721 decoder would say), else the ERC-721 result
  when that block matched, else the raw fallback. An ERC-20 match is a decoded Transfer
  with three arguments or a decoded Deposit with two. Whatever the case, exactly one
  record is appended for the log.
\<close>

theorem schema_order_first_match:
  fixes erc20Interface erc721Interface :: Interface
    and getAddress :: "string \<Rightarrow> string + string"
    and parsedLogs step :: ParsedLogs
    and log :: RawLog
  defines "step \<equiv> parseLog_step erc20Interface erc721Interface getAddress parsedLogs log"
  shows
    "step =
       (if snd (tryERC20 erc20Interface log parsedLogs)
        then fst (tryERC20 erc20Interface log parsedLogs)
        else if snd (tryERC721 erc721Interface log parsedLogs)
        then fst (tryERC721 erc721Interface log parsedLogs)
        else rawFallback getAddress log parsedLogs)
     \<and> snd (tryERC20 erc20Interface log parsedLogs) =
         (case erc20Interface log of
            Inr (Some d) \<Rightarrow> (ld_name d = ''Transfer'' \<and> 3 \<le> length (ld_args d))
                          \<or> (ld_name d = ''Deposit'' \<and> 2 \<le> length (ld_args d))
          | _ \<Rightarrow> False)
     \<and> (snd (tryERC20 erc20Interface log parsedLogs) \<longrightarrow>
          (\<forall>other. parseLog_step erc20Interface other getAddress parsedLogs log = step))
     \<and> length (transfers step) + length (deposits step) + length (otherEvents step)
       = Suc (length (transfers parsedLogs) + length (deposits parsedLogs)
              + length (otherEvents parsedLogs))"
  unfolding step_def
  using step_cases[of erc20Interface _ getAddress parsedLogs log]
    tryERC20_snd[of erc20Interface log parsedLogs]
    step_count[of erc20Interface erc721Interface getAddress parsedLogs log]
  by simp

theorem schema_order_first_match_witness:
  "transfers (parseLog_step exampleERC20 exampleERC721 exampleGetAddress emptyParsedLogs log20) =
     [\<lparr>tr_type = ''ERC20 Transfer'', tr_from = addrA, tr_to = addrB, tr_value = Some ''5'',
       tr_tokenId = None, tr_logIndex = 0, tr_blockNumber = 7\<rparr>]
   \<and> transfers (parseLog_step exampleERC20 exampleERC721 exampleGetAddress emptyParsedLogs log721) =
     [\<lparr>tr_type = ''ERC721 Transfer'', tr_from = addrA, tr_to = addrB, tr_value = None,
       tr_tokenId = Some topicC, tr_logIndex = 1, tr_blockNumber = 7\<rparr>]"
proof -
  have m20: "tryERC20 exampleERC20 log20 emptyParsedLogs =
      (emptyParsedLogs
         \<lparr>transfers :=
            [\<lparr>tr_type = ''ERC20 Transfer'', tr_from = addrA, tr_to = addrB,
              tr_value = Some ''5'', tr_tokenId = None, tr_logIndex = 0,
              tr_blockNumber = 7\<rparr>],
          senderAddresses := [addrA], receiverAddresses := [addrB],
          contractType := ''ERC20''\<rparr>, True)"
    by (simp add: tryERC20_def example_decodes example_fields emptyParsedLogs_def Set_add_def)
  have n20: "\<not> snd (tryERC20 exampleERC20 log721 emptyParsedLogs)"
    by (simp add: tryERC20_def example_decodes)
  have m721: "tryERC721 exampleERC721 log721 emptyParsedLogs =
      (emptyParsedLogs
         \<lparr>transfers :=
            [\<lparr>tr_type = ''ERC721 Transfer'', tr_from = addrA, tr_to = addrB,
              tr_value = None, tr_tokenId = Some topicC, tr_logIndex = 1,
              tr_blockNumber = 7\<rparr>],
          senderAddresses := [addrA], receiverAddresses := [addrB],
          contractType := ''ERC721''\<rparr>, True)"
    by (simp add: tryERC721_def example_decodes example_fields emptyParsedLogs_def Set_add_def)
  show ?thesis
    using schema_order_first_match[of exampleERC20 exampleERC721 exampleGetAddress
        emptyParsedLogs log20, THEN conjunct1]
      schema_order_first_match[of exampleERC20 exampleERC721 exampleGetAddress
        emptyParsedLogs log721, THEN conjunct1]
    by (simp add: m20 n20 m721)
qed

text \<open>
  Claim C7. For a log that neither schema matches, the address guess adds the address
  taken from \<open>topics[1]\<close> to the senders exactly when that topic exists, is 66 characters
  long (\<open>0x\<close> and 32 bytes, the width of a padded address) and \<open>getAddress\<close> accepts
  its last 40 characters; likewise \<open>topics[2]\<close> for the receivers. A topic of another
  width or one \<open>getAddress\<close> rejects changes nothing, and the topics from index 3 on
  may be replaced by anything without changing either address set.
\<close>

theorem fallback_address_guess:
  assumes "\<not> snd (tryERC20 erc20Interface log parsedLogs)"
    and "\<not> snd (tryERC721 erc721Interface log parsedLogs)"
  shows
    "senderAddresses (parseLog_step erc20Interface erc721Interface getAddress parsedLogs log) =
       (if 1 < length (log_topics log) \<and> length (log_topics log ! 1) = 66
        then (case getAddress (''0x'' @ drop 26 (log_topics log ! 1)) of
                Inl error \<Rightarrow> senderAddresses parsedLogs
              | Inr address \<Rightarrow> Set_add address (senderAddresses parsedLogs))
        else senderAddresses parsedLogs)
     \<and> receiverAddresses (parseLog_step erc20Interface erc721Interface getAddress parsedLogs log) =
       (if 2 < length (log_topics log) \<and> length (log_topics log ! 2) = 66
        then (case getAddress (''0x'' @ drop 26 (log_topics log ! 2)) of
                Inl error \<Rightarrow> receiverAddresses parsedLogs
              | Inr address \<Rightarrow> Set_add address (receiverAddresses parsedLogs))
        else receiverAddresses parsedLogs)
     \<and> (3 \<le> length (log_topics log) \<longrightarrow>
          (\<forall>others.
             senderAddresses
               (rawFallback getAddress (log\<lparr>log_topics := take 3 (log_topics log) @ others\<rparr>)
                  parsedLogs)
               = senderAddresses (rawFallback getAddress log parsedLogs)
           \<and> receiverAddresses
               (rawFallback getAddress (log\<lparr>log_topics := take 3 (log_topics log) @ others\<rparr>)
                  parsedLogs)
               = receiverAddresses (rawFallback getAddress log parsedLogs)))"
proof -
  have step: "parseLog_step erc20Interface erc721Interface getAddress parsedLogs log
      = rawFallback getAddress log parsedLogs"
    using assms by (simp add: step_cases)
  have same: "senderAddresses
        (rawFallback getAddress (log\<lparr>log_topics := take 3 (log_topics log) @ others\<rparr>)
           parsedLogs)
        = senderAddresses (rawFallback getAddress log parsedLogs)
      \<and> receiverAddresses
        (rawFallback getAddress (log\<lparr>log_topics := take 3 (log_topics log) @ others\<rparr>)
           parsedLogs)
        = receiverAddresses (rawFallback getAddress log parsedLogs)"
    if long: "3 \<le> length (log_topics log)" for others
  proof -
    have t1: "(take 3 (log_topics log) @ others) ! 1 = log_topics log ! 1"
      using long by (simp add: nth_append)
    have t2: "(take 3 (log_topics log) @ others) ! 2 = log_topics log ! 2"
      using long by (simp add: nth_append)
    have len: "1 < length (take 3 (log_topics log) @ others)"
      "2 < length (take 3 (log_topics log) @ others)"
      "1 < length (log_topics log)" "2 < length (log_topics log)"
      using long by simp_all
    have sel: "log_topics (log\<lparr>log_topics := take 3 (log_topics log) @ others\<rparr>)
        = take 3 (log_topics log) @ others"
      by simp
    show ?thesis
      unfolding rawFallback_addresses[THEN conjunct1] rawFallback_addresses[THEN conjunct2]
      by (simp only: sel t1 t2 len simp_thms)
  qed
  show ?thesis
    unfolding step
    using rawFallback_addresses[of getAddress log parsedLogs] same
    by blast
qed

theorem fallback_address_guess_witness:
  "senderAddresses (parseLog_step exampleERC20 exampleERC721 exampleGetAddress
                      emptyParsedLogs logOther) = [addrA]
   \<and> receiverAddresses (parseLog_step exampleERC20 exampleERC721 exampleGetAddress
                      emptyParsedLogs logOther) = [addrB]"
proof -
  have n20: "\<not> snd (tryERC20 exampleERC20 logOther emptyParsedLogs)"
    by (simp add: tryERC20_def example_decodes)
  have n721: "\<not> snd (tryERC721 exampleERC721 logOther emptyParsedLogs)"
    by (simp add: tryERC721_def example_decodes)
  note guess = fallback_address_guess[OF n20 n721, of exampleGetAddress]
  show ?thesis
    using guess[THEN conjunct1] guess[THEN conjunct2, THEN conjunct1]
    by (simp add: example_fields topicA_def topicB_def exampleGetAddress_def addrA_def addrB_def
        emptyParsedLogs_def Set_add_def)
qed

text \<open>
  Claim C9. The \<open>contractType\<close> that \<open>parseLogs\<close> returns is the last value
  written over the log sequence: starting from \<open>Unknown\<close>, every matched log writes its
  type (\<open>ERC20\<close> for an ERC-20 Transfer or Deposit match, \<open>ERC721\<close> for an ERC-721
  Transfer match) and an unmatched log writes nothing. So the type of the last log wins
  when it matches, and the result is \<open>Unknown\<close> when no log matches.
\<close>

theorem contractType_last_writer:
  "contractType (parseLogs erc20Interface erc721Interface getAddress logs contractAddress) =
     last (''Unknown'' # List.map_filter (schemaMatch erc20Interface erc721Interface) logs)
   \<and> contractType (parseLogs erc20Interface erc721Interface getAddress (logs @ [log])
                     contractAddress) =
     (case schemaMatch erc20Interface erc721Interface log of
        Some written \<Rightarrow> written
      | None \<Rightarrow> contractType (parseLogs erc20Interface erc721Interface getAddress logs
                                contractAddress))
   \<and> ((\<forall>l \<in> set logs. schemaMatch erc20Interface erc721Interface l = None) \<longrightarrow>
        contractType (parseLogs erc20Interface erc721Interface getAddress logs contractAddress)
          = ''Unknown'')"
proof -
  have none: "List.map_filter f xs = []" if "\<forall>x \<in> set xs. f x = None"
    for f :: "RawLog \<Rightarrow> string option" and xs
    using that by (induction xs) simp_all
  show ?thesis
    by (auto simp: parseLogs_def foldl_contractType step_contractType emptyParsedLogs_def none
        split: option.splits)
qed

theorem contractType_last_writer_witness:
  "contractType (parseLogs exampleERC20 exampleERC721 exampleGetAddress
                   [log20, log721, logOther] None) = ''ERC721''
   \<and> contractType (parseLogs exampleERC20 exampleERC721 exampleGetAddress
                   [log721, log20] None) = ''ERC20''
   \<and> contractType (parseLogs exampleERC20 exampleERC721 exampleGetAddress
                   [logOther] None) = ''Unknown''"
  using contractType_last_writer[of exampleERC20 exampleERC721 exampleGetAddress
      "[log20, log721, logOther]" None, THEN conjunct1]
    contractType_last_writer[of exampleERC20 exampleERC721 exampleGetAddress
      "[log721, log20]" None, THEN conjunct1]
    contractType_last_writer[of exampleERC20 exampleERC721 exampleGetAddress
      "[logOther]" None, THEN conjunct1]
  by (simp add: schemaMatch_def example_decodes)

section \<open>Properties of the ABI cache and the resolver\<close>

subsection \<open>Auxiliary facts\<close>

lemma getCachedABI_env:
  "snd (getCachedABI parse env a) =
     env\<lparr>requests := requests env @
       (case redisClient env of None \<Rightarrow> [] | Some r \<Rightarrow> [RedisGet (cacheKey a)])\<rparr>"
  by (simp add: getCachedABI_def Let_def split: option.splits sum.splits)

lemma fetchFromMonadScan_env:
  "snd (fetchFromMonadScan parse env a) = env\<lparr>requests := requests env @ [ScanGetAbi a]\<rparr>"
  by (simp add: fetchFromMonadScan_def Let_def split: sum.splits)

lemma fetchFromMonadExplorer_env:
  "snd (fetchFromMonadExplorer env a) = env\<lparr>requests := requests env @ [ExplorerGetAbi a]\<rparr>"
  by (simp add: fetchFromMonadExplorer_def Let_def split: sum.splits option.splits)

lemma fetchFromMonadScan_fst:
  "monadscan env' = monadscan env \<Longrightarrow>
   fst (fetchFromMonadScan parse env' a) = fst (fetchFromMonadScan parse env a)"
  by (simp add: fetchFromMonadScan_def Let_def split: sum.splits)

lemma fetchFromMonadExplorer_fst:
  "monadexplorer env' = monadexplorer env \<Longrightarrow>
   fst (fetchFromMonadExplorer env' a) = fst (fetchFromMonadExplorer env a)"
  by (simp add: fetchFromMonadExplorer_def Let_def split: sum.splits option.splits)

lemma cacheABI_requests:
  "requests (cacheABI stringify env a abi) = requests env @
     (case redisClient env of
        None \<Rightarrow> []
      | Some r \<Rightarrow> [RedisSetEx (cacheKey a) 86400 (stringify abi)])"
  by (simp add: cacheABI_def Let_def setEx_def split: option.splits sum.splits)

lemma cacheABI_stored:
  "redisClient env = Some r \<Longrightarrow> up r \<Longrightarrow>
   redisClient (cacheABI stringify env a abi) =
     Some (r\<lparr>entries := (entries r)(cacheKey a \<mapsto> (stringify abi, clock env + 86400))\<rparr>)
   \<and> clock (cacheABI stringify env a abi) = clock env"
  by (simp add: cacheABI_def Let_def setEx_def)

lemma fetchABI_hit:
  "truthy (fst (getCachedABI parse env a)) \<Longrightarrow>
   fetchABI parse stringify env a = getCachedABI parse env a"
  by (cases "getCachedABI parse env a") (simp add: fetchABI_def)

lemma fetchABI_miss:
  assumes "\<not> truthy (fst (getCachedABI parse env a))"
  shows "fetchABI parse stringify env a =
     (let env1 = snd (getCachedABI parse env a);
          scanned = fst (fetchFromMonadScan parse env1 a);
          env2 = snd (fetchFromMonadScan parse env1 a);
          abi = (if truthy scanned then scanned else fst (fetchFromMonadExplorer env2 a));
          env3 = (if truthy scanned then env2 else snd (fetchFromMonadExplorer env2 a))
      in (abi, if truthy abi then cacheABI stringify env3 a abi else env3))"
  using assms
  by (cases "getCachedABI parse env a";
      cases "fetchFromMonadScan parse (snd (getCachedABI parse env a)) a";
      cases "fetchFromMonadExplorer
               (snd (fetchFromMonadScan parse (snd (getCachedABI parse env a)) a)) a")
     (simp add: fetchABI_def Let_def)

lemma example_lower: "toLowerCase exampleAddress = ''0xabcdef0123456789abcdef0123456789abcdef01''"
  by (simp add: exampleAddress_def toLowerCase_def lowerChar_def)

text \<open>
  The resolver in terms of what its three sources gave: the cache decides between
  returning at once and asking the explorers, and the requests follow that order.
\<close>

lemma fetchABI_steps:
  fixes parse :: JSON_parse and stringify :: JSON_stringify and env env1 :: Env
    and address :: string and cached scanned explored :: json and result :: "json \<times> Env"
    and readCache writeCache :: "request list"
  defines "cached \<equiv> fst (getCachedABI parse env address)"
    and "env1 \<equiv> snd (getCachedABI parse env address)"
    and "scanned \<equiv> fst (fetchFromMonadScan parse env address)"
    and "explored \<equiv> fst (fetchFromMonadExplorer env address)"
    and "result \<equiv> fetchABI parse stringify env address"
    and "readCache \<equiv>
           (case redisClient env of None \<Rightarrow> [] | Some r \<Rightarrow> [RedisGet (cacheKey address)])"
    and "writeCache \<equiv>
           (case redisClient env of
              None \<Rightarrow> []
            | Some r \<Rightarrow> [RedisSetEx (cacheKey address) 86400 (stringify (fst result))])"
  shows
    "(truthy cached \<longrightarrow>
        fst result = cached \<and> requests (snd result) = requests env @ readCache)
     \<and> (\<not> truthy cached \<longrightarrow>
        fst result = (if truthy scanned then scanned else explored)
        \<and> requests (snd result) =
            requests env @ readCache @ [ScanGetAbi address]
            @ (if truthy scanned then [] else [ExplorerGetAbi address])
            @ (if truthy (fst result) then writeCache else []))
     \<and> (\<forall>r. \<not> truthy cached \<and> truthy (fst result) \<and> redisClient env = Some r \<and> up r \<longrightarrow>
          redisClient (snd result) =
            Some (r\<lparr>entries := (entries r)(cacheKey address \<mapsto>
                                     (stringify (fst result), clock env + 86400))\<rparr>))
     \<and> ((\<exists>e. monadscan env address = Inl e) \<longrightarrow> scanned = JNull)
     \<and> ((\<exists>d. monadscan env address = Inr d
              \<and> sd_result d = ''Contract source code not verified'') \<longrightarrow> scanned = JNull)
     \<and> ((\<exists>d e. monadscan env address = Inr d \<and> parse (sd_result d) = Inl e) \<longrightarrow>
          scanned = JNull)
     \<and> ((\<exists>e. monadexplorer env address = Inl e) \<longrightarrow> explored = JNull)
     \<and> (\<not> truthy cached \<and> (\<exists>e. monadscan env address = Inl e)
          \<and> (\<exists>e. monadexplorer env address = Inl e) \<longrightarrow> fst result = JNull)"
proof -
  let ?env1 = "snd (getCachedABI parse env address)"
  let ?env2 = "snd (fetchFromMonadScan parse ?env1 address)"
  have scan1: "fst (fetchFromMonadScan parse ?env1 address) = scanned"
    unfolding scanned_def by (rule fetchFromMonadScan_fst) (simp add: getCachedABI_env)
  have expl2: "fst (fetchFromMonadExplorer ?env2 address) = explored"
    unfolding explored_def
    by (rule fetchFromMonadExplorer_fst) (simp add: fetchFromMonadScan_env getCachedABI_env)
  have hit: "fst result = cached \<and> requests (snd result) = requests env @ readCache"
    if "truthy cached"
    using that unfolding cached_def result_def readCache_def
    by (simp add: fetchABI_hit getCachedABI_env)
  have miss_fst: "fst result = (if truthy scanned then scanned else explored)"
    if "\<not> truthy cached"
    using that unfolding cached_def result_def
    by (simp add: fetchABI_miss Let_def scan1 expl2)
  have miss_req: "requests (snd result) =
      requests env @ readCache @ [ScanGetAbi address]
      @ (if truthy scanned then [] else [ExplorerGetAbi address])
      @ (if truthy (fst result) then writeCache else [])"
    if m: "\<not> truthy cached"
  proof -
    let ?abi = "if truthy scanned then scanned else explored"
    let ?env3 = "if truthy scanned then ?env2 else snd (fetchFromMonadExplorer ?env2 address)"
    have sr: "snd result = (if truthy ?abi then cacheABI stringify ?env3 address ?abi else ?env3)"
      using m unfolding cached_def result_def
      by (simp add: fetchABI_miss Let_def scan1 expl2)
    have fr: "fst result = ?abi" by (rule miss_fst[OF m])
    show ?thesis
      unfolding writeCache_def readCache_def sr fr
      by (simp add: cacheABI_requests fetchFromMonadExplorer_env fetchFromMonadScan_env
          getCachedABI_env)
  qed
  have stored: "redisClient (snd result) =
      Some (r\<lparr>entries := (entries r)(cacheKey address \<mapsto>
                               (stringify (fst result), clock env + 86400))\<rparr>)"
    if m: "\<not> truthy cached" and t: "truthy (fst result)"
      and c: "redisClient env = Some r" and u: "up r" for r
  proof -
    let ?env3 = "if truthy scanned then ?env2 else snd (fetchFromMonadExplorer ?env2 address)"
    have r: "result = (fst result, cacheABI stringify ?env3 address (fst result))"
      using m t miss_fst[OF m] unfolding cached_def result_def
      by (simp add: fetchABI_miss Let_def scan1 expl2)
    have c3: "redisClient ?env3 = Some r" and k3: "clock ?env3 = clock env"
      using c by (simp_all add: fetchFromMonadExplorer_env fetchFromMonadScan_env getCachedABI_env)
    show ?thesis
      by (subst r) (simp add: cacheABI_stored[OF c3 u] k3)
  qed
  have scan_throw: "scanned = JNull" if "monadscan env address = Inl e" for e
    using that unfolding scanned_def by (simp add: fetchFromMonadScan_def Let_def)
  have scan_unverified: "scanned = JNull"
    if "monadscan env address = Inr d" "sd_result d = ''Contract source code not verified''"
    for d
    using that unfolding scanned_def by (simp add: fetchFromMonadScan_def Let_def)
  have scan_garbled: "scanned = JNull"
    if "monadscan env address = Inr d" "parse (sd_result d) = Inl e" for d e
    using that unfolding scanned_def by (simp add: fetchFromMonadScan_def Let_def)
  have expl_throw: "explored = JNull" if "monadexplorer env address = Inl e" for e
    using that unfolding explored_def by (simp add: fetchFromMonadExplorer_def Let_def)
  have both: "fst result = JNull"
    if "\<not> truthy cached" "monadscan env address = Inl e" "monadexplorer env address = Inl e'"
    for e e'
    using miss_fst[OF that(1)] scan_throw[OF that(2)] expl_throw[OF that(3)] by simp
  show ?thesis
    using hit miss_fst miss_req stored scan_throw scan_unverified scan_garbled expl_throw both
    by blast
qed

lemma source_values:
  "fst (getCachedABI parse env address) =
     (case redisClient env of
        None \<Rightarrow> JNull
      | Some r \<Rightarrow>
          (case redis_get r (clock env) (cacheKey address) of
             Inl error \<Rightarrow> JNull
           | Inr None \<Rightarrow> JNull
           | Inr (Some stored) \<Rightarrow>
               if stored = '''' then JNull
               else (case parse stored of Inl error \<Rightarrow> JNull | Inr abi \<Rightarrow> abi)))"
  "fst (fetchFromMonadScan parse env address) =
     (case monadscan env address of
        Inl error \<Rightarrow> JNull
      | Inr reply \<Rightarrow>
          if sd_status reply = ''1''
             \<and> sd_result reply \<noteq> ''Contract source code not verified''
          then (case parse (sd_result reply) of Inl error \<Rightarrow> JNull | Inr abi \<Rightarrow> abi)
          else JNull)"
  "fst (fetchFromMonadExplorer env address) =
     (case monadexplorer env address of
        Inl error \<Rightarrow> JNull
      | Inr reply \<Rightarrow>
          if truthy reply then
            (case getProp reply ''abi'' of
               None \<Rightarrow> JNull
             | Some abi \<Rightarrow> if truthy abi then abi else JNull)
          else JNull)"
  by (simp_all add: getCachedABI_def fetchFromMonadScan_def fetchFromMonadExplorer_def Let_def
      split: option.splits sum.splits)

subsection \<open>Claims about the resolver and the cache\<close>

text \<open>
  Claim C6. Let \<open>cached\<close> be what the cache holds for the lower-cased address (a
  document that parses from a non-empty, unexpired entry; \<open>null\<close> without a client, on
  a rejected command, on a miss or on text that does not parse), \<open>scanned\<close> what
  MonadScan has (the parsed \<open>result\<close> of a reply with status \<open>1\<close> that is not
  "Contract source code not verified"; \<open>null\<close> on every other reply, on a rejected
  request and on a result that does not parse) and \<open>explored\<close> what MonadExplorer has
  (the truthy \<open>abi\<close> member of a truthy reply; \<open>null\<close> otherwise). These are the
  values of \<open>getCachedABI\<close>, \<open>fetchFromMonadScan\<close> and \<open>fetchFromMonadExplorer\<close>.
  \<open>fetchABI\<close> reads the cache first. On a hit (\<open>cached\<close> truthy) it returns
  \<open>cached\<close> and has made no request but the cache read. On a miss it asks MonadScan,
  then MonadExplorer only when MonadScan gave nothing, returns \<open>scanned\<close> when that is
  there and \<open>explored\<close> otherwise, and when it found an ABI it has sent \<open>SETEX\<close>
  with 86400 seconds for the lower-cased key as its last request (when a Redis client is
  configured; with the connection up the entry is then stored with that expiry). With
  both sources failing the resolver returns \<open>null\<close>; it returns a value in every case.
\<close>

theorem fetchABI_cache_first:
  fixes parse :: JSON_parse and stringify :: JSON_stringify and env :: Env
    and address :: string and cached scanned explored :: json and result :: "json \<times> Env"
    and readCache writeCache :: "request list"
  defines "cached \<equiv>
      (case redisClient env of
         None \<Rightarrow> JNull
       | Some r \<Rightarrow>
           (case redis_get r (clock env) (cacheKey address) of
              Inl error \<Rightarrow> JNull
            | Inr None \<Rightarrow> JNull
            | Inr (Some stored) \<Rightarrow>
                if stored = '''' then JNull
                else (case parse stored of Inl error \<Rightarrow> JNull | Inr abi \<Rightarrow> abi)))"
    and "scanned \<equiv>
      (case monadscan env address of
         Inl error \<Rightarrow> JNull
       | Inr reply \<Rightarrow>
           if sd_status reply = ''1''
              \<and> sd_result reply \<noteq> ''Contract source code not verified''
           then (case parse (sd_result reply) of Inl error \<Rightarrow> JNull | Inr abi \<Rightarrow> abi)
           else JNull)"
    and "explored \<equiv>
      (case monadexplorer env address of
         Inl error \<Rightarrow> JNull
       | Inr reply \<Rightarrow>
           if truthy reply then
             (case getProp reply ''abi'' of
                None \<Rightarrow> JNull
              | Some abi \<Rightarrow> if truthy abi then abi else JNull)
           else JNull)"
    and "result \<equiv> fetchABI parse stringify env address"
    and "readCache \<equiv>
           (case redisClient env of None \<Rightarrow> [] | Some r \<Rightarrow> [RedisGet (cacheKey address)])"
    and "writeCache \<equiv>
           (case redisClient env of
              None \<Rightarrow> []
            | Some r \<Rightarrow> [RedisSetEx (cacheKey address) 86400 (stringify (fst result))])"
  shows
    "fst (getCachedABI parse env address) = cached
     \<and> fst (fetchFromMonadScan parse env address) = scanned
     \<and> fst (fetchFromMonadExplorer env address) = explored
     \<and> (truthy cached \<longrightarrow>
        fst result = cached \<and> requests (snd result) = requests env @ readCache)
     \<and> (\<not> truthy cached \<longrightarrow>
        fst result = (if truthy scanned then scanned else explored)
        \<and> requests (snd result) =
            requests env @ readCache @ [ScanGetAbi address]
            @ (if truthy scanned then [] else [ExplorerGetAbi address])
            @ (if truthy (fst result) then writeCache else []))
     \<and> (\<forall>r. \<not> truthy cached \<and> truthy (fst result) \<and> redisClient env = Some r \<and> up r \<longrightarrow>
          redisClient (snd result) =
            Some (r\<lparr>entries := (entries r)(cacheKey address \<mapsto>
                                     (stringify (fst result), clock env + 86400))\<rparr>))
     \<and> ((\<exists>e. monadscan env address = Inl e) \<longrightarrow> scanned = JNull)
     \<and> ((\<exists>d. monadscan env address = Inr d
              \<and> sd_result d = ''Contract source code not verified'') \<longrightarrow> scanned = JNull)
     \<and> ((\<exists>d e. monadscan env address = Inr d \<and> parse (sd_result d) = Inl e) \<longrightarrow>
          scanned = JNull)
     \<and> ((\<exists>e. monadexplorer env address = Inl e) \<longrightarrow> explored = JNull)
     \<and> (\<not> truthy cached \<and> (\<exists>e. monadscan env address = Inl e)
          \<and> (\<exists>e. monadexplorer env address = Inl e) \<longrightarrow> fst result = JNull)"
proof -
  have c: "fst (getCachedABI parse env address) = cached"
    unfolding cached_def by (rule source_values)
  have s: "fst (fetchFromMonadScan parse env address) = scanned"
    unfolding scanned_def by (rule source_values)
  have e: "fst (fetchFromMonadExplorer env address) = explored"
    unfolding explored_def by (rule source_values)
  note steps = fetchABI_steps[of parse env address stringify, unfolded c s e,
      folded result_def, folded readCache_def writeCache_def]
  show ?thesis
    by (rule conjI[OF c conjI[OF s conjI[OF e steps]]])
qed

theorem fetchABI_cache_first_witness:
  "fst (fetchABI exampleParse exampleStringify exampleEnv exampleAddress) = JArr []
   \<and> requests (snd (fetchABI exampleParse exampleStringify exampleEnv exampleAddress)) =
       [RedisGet ''abi:0xabcdef0123456789abcdef0123456789abcdef01'',
        ScanGetAbi exampleAddress,
        ExplorerGetAbi exampleAddress,
        RedisSetEx ''abi:0xabcdef0123456789abcdef0123456789abcdef01'' 86400 ''[]'']
   \<and> fst (fetchABI exampleParse exampleStringify verifiedEnv exampleAddress) = JArr []
   \<and> requests (snd (fetchABI exampleParse exampleStringify verifiedEnv exampleAddress)) =
       [RedisGet ''abi:0xabcdef0123456789abcdef0123456789abcdef01'',
        ScanGetAbi exampleAddress,
        RedisSetEx ''abi:0xabcdef0123456789abcdef0123456789abcdef01'' 86400 ''[]'']
   \<and> fst (fetchABI exampleParse exampleStringify warmEnv exampleAddress) = JArr []
   \<and> requests (snd (fetchABI exampleParse exampleStringify warmEnv exampleAddress)) =
       [RedisGet ''abi:0xabcdef0123456789abcdef0123456789abcdef01'']"
proof -
  note cold = fetchABI_cache_first[of exampleParse exampleEnv exampleAddress exampleStringify,
      THEN conjunct2, THEN conjunct2, THEN conjunct2, THEN conjunct2, THEN conjunct1]
  note verified = fetchABI_cache_first[of exampleParse verifiedEnv exampleAddress
      exampleStringify,
      THEN conjunct2, THEN conjunct2, THEN conjunct2, THEN conjunct2, THEN conjunct1]
  note warm = fetchABI_cache_first[of exampleParse warmEnv exampleAddress exampleStringify,
      THEN conjunct2, THEN conjunct2, THEN conjunct2, THEN conjunct1]
  have k: "cacheKey exampleAddress = ''abi:0xabcdef0123456789abcdef0123456789abcdef01''"
    by (simp add: cacheKey_def example_lower)
  have a: "fst (fetchABI exampleParse exampleStringify exampleEnv exampleAddress) = JArr []
      \<and> requests (snd (fetchABI exampleParse exampleStringify exampleEnv exampleAddress)) =
       [RedisGet ''abi:0xabcdef0123456789abcdef0123456789abcdef01'',
        ScanGetAbi exampleAddress,
        ExplorerGetAbi exampleAddress,
        RedisSetEx ''abi:0xabcdef0123456789abcdef0123456789abcdef01'' 86400 ''[]'']"
    using cold by (simp add: k exampleEnv_def redis_get_def exampleStringify_def)
  have b: "fst (fetchABI exampleParse exampleStringify verifiedEnv exampleAddress) = JArr []
      \<and> requests (snd (fetchABI exampleParse exampleStringify verifiedEnv exampleAddress)) =
       [RedisGet ''abi:0xabcdef0123456789abcdef0123456789abcdef01'',
        ScanGetAbi exampleAddress,
        RedisSetEx ''abi:0xabcdef0123456789abcdef0123456789abcdef01'' 86400 ''[]'']"
    using verified
    by (simp add: k verifiedEnv_def redis_get_def exampleStringify_def exampleParse_def)
  have c: "fst (fetchABI exampleParse exampleStringify warmEnv exampleAddress) = JArr []
      \<and> requests (snd (fetchABI exampleParse exampleStringify warmEnv exampleAddress)) =
       [RedisGet ''abi:0xabcdef0123456789abcdef0123456789abcdef01'']"
    using warm by (simp add: k warmEnv_def redis_get_def exampleParse_def)
  show ?thesis using a b c by simp
qed

text \<open>
  Claim C8. With a Redis client configured and its connection up, and a runtime whose
  \<open>JSON.parse\<close> gives back the document that \<open>JSON.stringify\<close> wrote (as a non-empty
  text), \<open>cacheABI\<close> followed by \<open>getCachedABI\<close> returns the stored ABI for any two
  spellings of the address that agree up to letter case; it keeps doing so until 86400
  seconds have passed, and from then on \<open>getCachedABI\<close> returns \<open>null\<close>.
\<close>

theorem abi_cache_round_trip:
  assumes "redisClient env = Some r" and "up r"
    and "parse (stringify abi) = Inr abi" and "stringify abi \<noteq> ''''"
    and "toLowerCase stored = toLowerCase asked"
  shows "fst (getCachedABI parse (cacheABI stringify env stored abi) asked) = abi
    \<and> (\<forall>t. t < clock env + 86400 \<longrightarrow>
          fst (getCachedABI parse ((cacheABI stringify env stored abi)\<lparr>clock := t\<rparr>) asked)
            = abi)
    \<and> (\<forall>t. clock env + 86400 \<le> t \<longrightarrow>
          fst (getCachedABI parse ((cacheABI stringify env stored abi)\<lparr>clock := t\<rparr>) asked)
            = JNull)"
  using assms cacheABI_stored[OF assms(1,2), of stringify stored abi]
  by (simp add: getCachedABI_def Let_def redis_get_def cacheKey_def)

theorem abi_cache_round_trip_witness:
  "fst (getCachedABI exampleParse
          (cacheABI exampleStringify exampleEnv exampleAddress (JArr []))
          ''0xABCDEF0123456789ABCDEF0123456789ABCDEF01'') = JArr []
   \<and> fst (getCachedABI exampleParse
          ((cacheABI exampleStringify exampleEnv exampleAddress (JArr []))\<lparr>clock := 87400\<rparr>)
          ''0xABCDEF0123456789ABCDEF0123456789ABCDEF01'') = JNull"
proof -
  have client: "redisClient exampleEnv = Some \<lparr>entries = (\<lambda>key. None), up = True\<rparr>"
    by (simp add: exampleEnv_def)
  have isup: "up \<lparr>entries = (\<lambda>key. None), up = True\<rparr>" by simp
  have trip: "exampleParse (exampleStringify (JArr [])) = Inr (JArr [])"
    by (simp add: exampleParse_def exampleStringify_def)
  have nonempty: "exampleStringify (JArr []) \<noteq> ''''" by (simp add: exampleStringify_def)
  have same: "toLowerCase exampleAddress
      = toLowerCase ''0xABCDEF0123456789ABCDEF0123456789ABCDEF01''"
    by (simp add: exampleAddress_def toLowerCase_def lowerChar_def)
  have now: "clock exampleEnv = 1000" by (simp add: exampleEnv_def)
  note rt = abi_cache_round_trip[where parse = exampleParse and stringify = exampleStringify
      and abi = "JArr []" and env = exampleEnv, OF client isup trip nonempty same]
  show ?thesis
    using rt[THEN conjunct1] rt[THEN conjunct2, THEN conjunct2, rule_format, of 87400]
    by (simp add: now)
qed

section \<open>Properties of the request handler and the AI service\<close>

subsection \<open>Auxiliary facts\<close>

lemma analyzeDispute_message:
  "analyzeDispute apiKey posted = Inl e \<Longrightarrow> e = ''AI service temporarily unavailable''"
  by (auto simp: analyzeDispute_def split: sum.splits)

lemma handleError_messages:
  "handleError ''Transaction not found'' = failure 404 ''Transaction not found''"
  "handleError ''Transaction receipt not found'' = failure 500 ''Internal server error''"
  "handleError ''AI service temporarily unavailable''
     = failure 503 ''AI service temporarily unavailable''"
  "handleError ''request timeout'' = failure 500 ''Internal server error''"
  by (simp_all add: handleError_def)

lemma resolve_cases:
  assumes "getTransaction (sv_provider sv) txHash = Inr tx"
  shows "resolveContractAddress sv txHash given =
     (if truthyString given then Inr given
      else case tx of
             None \<Rightarrow> Inl (failure 404 ''Transaction not found'')
           | Some transaction \<Rightarrow> Inr (tx_to transaction))"
  using assms by (simp add: resolveContractAddress_def split: option.splits)

subsection \<open>Claims about the request handler and the AI service\<close>

text \<open>
  Claim C2, as amended. For a request with a transaction hash whose provider calls
  (\<open>getTransaction\<close>, \<open>getTransactionReceipt\<close>, \<open>getBlock\<close>) all return and
  whose block time can be printed: an absent transaction gives 404, an absent receipt
  gives 500, and a failed AI adjudication of a given dispute gives 503. When transaction
  and receipt resolve, the AI call (if any) succeeds and the contract state holds no
  \<open>decimals\<close>, the response is the success response with status 200, whose body is
  the request's fields, the AI text, the transaction summary (block time absent when the
  block is), the parsed logs, the contract state and the pattern analysis. The contract
  state never fails the request on its own: a contract that cannot be built gives the
  empty state, and each of the four reads that fails leaves its one field out while the
  others keep theirs. A request without a transaction hash gets 400.
\<close>

theorem analyze_response:
  fixes sv :: Services and req :: Request and response :: Response
    and resolved :: "Transaction \<Rightarrow> string option"
  assumes "rq_txHash req = Some txHash" and "txHash \<noteq> ''''"
    and "getTransaction (sv_provider sv) txHash = Inr tx"
    and "getTransactionReceipt (sv_provider sv) txHash = Inr rc"
    and "\<forall>receipt. rc = Some receipt \<longrightarrow>
           getBlock (sv_provider sv) (rc_blockNumber receipt) = Inr block"
    and "\<forall>b. block = Some b \<longrightarrow> \<bar>timestamp b * 1000\<bar> \<le> 8640000000000000"
  defines "response \<equiv> analyzeController sv req"
    and "resolved \<equiv> (\<lambda>transaction.
           if truthyString (rq_contractAddress req) then rq_contractAddress req
           else tx_to transaction)"
  shows
    "(tx = None \<longrightarrow> response = failure 404 ''Transaction not found'')
     \<and> (tx \<noteq> None \<and> rc = None \<longrightarrow> response = failure 500 ''Internal server error'')
     \<and> (tx \<noteq> None \<and> rc \<noteq> None \<and> truthyString (rq_disputeDescription req)
          \<and> (\<exists>e. analyzeDispute (sv_apiKey sv) (sv_post sv) = Inl e) \<longrightarrow>
          response = failure 503 ''AI service temporarily unavailable'')
     \<and> (\<forall>transaction receipt ai.
          tx = Some transaction \<and> rc = Some receipt
          \<and> (if truthyString (rq_disputeDescription req)
               then analyzeDispute (sv_apiKey sv) (sv_post sv) = Inr ai
               else ai = None)
          \<and> info_decimals (getContractState (sv_newContract sv) (resolved transaction)
                              (tx_from transaction)) = None \<longrightarrow>
          response =
            \<lparr>rs_status = 200, rs_success = True, rs_error = None,
             rs_data = Some
               \<lparr>rd_txHash = txHash,
                rd_contractAddress = resolved transaction,
                rd_disputeDescription =
                  (if truthyString (rq_disputeDescription req)
                   then rq_disputeDescription req else None),
                rd_aiAnalysis = ai,
                rd_transaction =
                  \<lparr>ts_hash = txHash,
                   ts_blockNumber = rc_blockNumber receipt,
                   ts_blockTime =
                     (case block of None \<Rightarrow> None | Some b \<Rightarrow> Some (timestamp b * 1000)),
                   ts_from = tx_from transaction,
                   ts_to = tx_to transaction,
                   ts_value = tx_value transaction,
                   ts_gasUsed = rc_gasUsed receipt,
                   ts_status = (if rc_status receipt = Some 1 then ''success'' else ''failed''),
                   ts_gasPrice = tx_gasPrice transaction,
                   ts_nonce = tx_nonce transaction\<rparr>,
                rd_events =
                  parseLogs (sv_erc20 sv) (sv_erc721 sv) (sv_getAddress sv) (rc_logs receipt)
                    (resolved transaction),
                rd_contractState =
                  getContractState (sv_newContract sv) (resolved transaction)
                    (tx_from transaction),
                rd_analysis =
                  analyzeTransactionPattern transaction receipt
                    (parseLogs (sv_erc20 sv) (sv_erc721 sv) (sv_getAddress sv)
                       (rc_logs receipt) (resolved transaction))\<rparr>\<rparr>)
     \<and> ((\<exists>e. newContract contractAddress = Inl e) \<longrightarrow>
          getContractState newContract contractAddress senderAddress =
            \<lparr>balances = [], info_symbol = None, info_name = None, info_decimals = None\<rparr>)
     \<and> (\<forall>c. newContract contractAddress = Inr c \<longrightarrow>
          getContractState newContract contractAddress senderAddress =
            \<lparr>balances =
               (if senderAddress \<noteq> '''' then
                  (case ct_balanceOf c senderAddress of
                     Inl e \<Rightarrow> []
                   | Inr balance \<Rightarrow> [(senderAddress, balance)])
                else []),
             info_symbol = (case ct_symbol c of Inl e \<Rightarrow> None | Inr s \<Rightarrow> Some s),
             info_name = (case ct_name c of Inl e \<Rightarrow> None | Inr n \<Rightarrow> Some n),
             info_decimals = (case ct_decimals c of Inl e \<Rightarrow> None | Inr d \<Rightarrow> Some d)\<rparr>)
     \<and> rs_status (analyzeController sv (req\<lparr>rq_txHash := None\<rparr>)) = 400"
proof -
  note resolve = resolve_cases[OF assms(3), of "rq_contractAddress req"]
  have printed: "(case block of
        None \<Rightarrow> Inr None
      | Some b \<Rightarrow>
          (case toISOString (timestamp b * 1000) of
             Inl error \<Rightarrow> Inl error
           | Inr p \<Rightarrow> Inr (Some p)))
      = (Inr (case block of None \<Rightarrow> None | Some b \<Rightarrow> Some (timestamp b * 1000))
           :: string + int option)"
    using assms(6) by (cases block) (simp_all add: toISOString_def)
  have c1: "response = failure 404 ''Transaction not found''" if "tx = None"
    using that assms(1-3) resolve unfolding response_def
    by (simp add: analyzeController_def analyzeTransaction_def handleError_messages)
  have c2: "response = failure 500 ''Internal server error''" if "tx \<noteq> None" "rc = None"
    using that assms(1-4) resolve unfolding response_def
    by (auto simp: analyzeController_def analyzeTransaction_def handleError_messages)
  have c3: "response = failure 503 ''AI service temporarily unavailable''"
    if "tx \<noteq> None" "rc \<noteq> None" "truthyString (rq_disputeDescription req)"
      "analyzeDispute (sv_apiKey sv) (sv_post sv) = Inl e" for e
    using that assms(1-5) resolve analyzeDispute_message[OF that(4)] unfolding response_def
    by (auto simp: analyzeController_def analyzeTransaction_def handleError_messages Let_def
        printed)
  have c4: "response =
      \<lparr>rs_status = 200, rs_success = True, rs_error = None,
       rs_data = Some
         \<lparr>rd_txHash = txHash,
          rd_contractAddress = resolved transaction,
          rd_disputeDescription =
            (if truthyString (rq_disputeDescription req)
             then rq_disputeDescription req else None),
          rd_aiAnalysis = ai,
          rd_transaction =
            \<lparr>ts_hash = txHash,
             ts_blockNumber = rc_blockNumber receipt,
             ts_blockTime =
               (case block of None \<Rightarrow> None | Some b \<Rightarrow> Some (timestamp b * 1000)),
             ts_from = tx_from transaction,
             ts_to = tx_to transaction,
             ts_value = tx_value transaction,
             ts_gasUsed = rc_gasUsed receipt,
             ts_status = (if rc_status receipt = Some 1 then ''success'' else ''failed''),
             ts_gasPrice = tx_gasPrice transaction,
             ts_nonce = tx_nonce transaction\<rparr>,
          rd_events =
            parseLogs (sv_erc20 sv) (sv_erc721 sv) (sv_getAddress sv) (rc_logs receipt)
              (resolved transaction),
          rd_contractState =
            getContractState (sv_newContract sv) (resolved transaction) (tx_from transaction),
          rd_analysis =
            analyzeTransactionPattern transaction receipt
              (parseLogs (sv_erc20 sv) (sv_erc721 sv) (sv_getAddress sv)
                 (rc_logs receipt) (resolved transaction))\<rparr>\<rparr>"
    if "tx = Some transaction" "rc = Some receipt"
      "if truthyString (rq_disputeDescription req)
       then analyzeDispute (sv_apiKey sv) (sv_post sv) = Inr ai else ai = None"
      "info_decimals (getContractState (sv_newContract sv) (resolved transaction)
                        (tx_from transaction)) = None"
    for transaction receipt ai
    using that assms(1-5) resolve unfolding response_def resolved_def
    by (auto simp: analyzeController_def analyzeTransaction_def Let_def printed res_json_def
        split: if_splits)
  have c5: "getContractState newContract contractAddress senderAddress =
      \<lparr>balances = [], info_symbol = None, info_name = None, info_decimals = None\<rparr>"
    if "newContract contractAddress = Inl e" for e
    using that by (simp add: getContractState_def)
  have c6: "getContractState newContract contractAddress senderAddress =
      \<lparr>balances =
         (if senderAddress \<noteq> '''' then
            (case ct_balanceOf c senderAddress of
               Inl e \<Rightarrow> []
             | Inr balance \<Rightarrow> [(senderAddress, balance)])
          else []),
       info_symbol = (case ct_symbol c of Inl e \<Rightarrow> None | Inr s \<Rightarrow> Some s),
       info_name = (case ct_name c of Inl e \<Rightarrow> None | Inr n \<Rightarrow> Some n),
       info_decimals = (case ct_decimals c of Inl e \<Rightarrow> None | Inr d \<Rightarrow> Some d)\<rparr>"
    if "newContract contractAddress = Inr c" for c
    using that by (simp add: getContractState_def)
  have c7: "rs_status (analyzeController sv (req\<lparr>rq_txHash := None\<rparr>)) = 400"
    by (simp add: analyzeController_def failure_def)
  have s3: "tx \<noteq> None \<and> rc \<noteq> None \<and> truthyString (rq_disputeDescription req)
        \<and> (\<exists>e. analyzeDispute (sv_apiKey sv) (sv_post sv) = Inl e) \<longrightarrow>
      response = failure 503 ''AI service temporarily unavailable''"
    using c3 by blast
  have s5: "(\<exists>e. newContract contractAddress = Inl e) \<longrightarrow>
      getContractState newContract contractAddress senderAddress =
        \<lparr>balances = [], info_symbol = None, info_name = None, info_decimals = None\<rparr>"
    using c5 by blast
  show ?thesis
    apply (intro conjI)
          apply (simp add: c1)
         apply (simp add: c2)
        apply (rule s3)
       apply (intro allI impI, elim conjE, erule (3) c4)
      apply (rule s5)
     apply (intro allI impI, erule c6)
    apply (rule c7)
    done
qed

lemma example_services:
  "sv_provider exampleServices = exampleProvider"
  "getTransaction exampleProvider h = Inr (Some exampleTx)"
  "getTransactionReceipt exampleProvider h = Inr (Some exampleReceipt)"
  "getBlock exampleProvider n = Inr (Some \<lparr>timestamp = 1700000000\<rparr>)"
  "sv_apiKey exampleServices = None"
  "sv_post exampleServices = Inl ''connect ECONNREFUSED''"
  "rq_txHash plainRequest = Some ''0x5c504ed4''"
  "rq_disputeDescription plainRequest = None"
  "rq_txHash disputeRequest = Some ''0x5c504ed4''"
  "rq_contractAddress disputeRequest = Some addrB"
  "rq_disputeDescription disputeRequest = Some ''I never received my tokens''"
  by (simp_all add: exampleServices_def exampleProvider_def plainRequest_def disputeRequest_def)

theorem analyze_response_witness:
  "rs_status (analyzeController exampleServices plainRequest) = 200
   \<and> rs_success (analyzeController exampleServices plainRequest)
   \<and> map_option rd_contractState (rs_data (analyzeController exampleServices plainRequest)) =
       Some \<lparr>balances = [(addrA, ''100'')], info_symbol = Some ''TKN'',
              info_name = Some ''Token'', info_decimals = None\<rparr>
   \<and> analyzeController exampleServices disputeRequest
       = failure 503 ''AI service temporarily unavailable''"
proof -
  have h1: "rq_txHash plainRequest = Some ''0x5c504ed4''" by (simp add: example_services)
  have h1': "rq_txHash disputeRequest = Some ''0x5c504ed4''" by (simp add: example_services)
  have h2: "''0x5c504ed4'' \<noteq> ''''" by simp
  have h3: "getTransaction (sv_provider exampleServices) ''0x5c504ed4'' = Inr (Some exampleTx)"
    by (simp add: example_services)
  have h4: "getTransactionReceipt (sv_provider exampleServices) ''0x5c504ed4''
      = Inr (Some exampleReceipt)"
    by (simp add: example_services)
  have h5: "\<forall>receipt. Some exampleReceipt = Some receipt \<longrightarrow>
      getBlock (sv_provider exampleServices) (rc_blockNumber receipt)
        = Inr (Some \<lparr>timestamp = 1700000000\<rparr>)"
    by (simp add: example_services)
  have h6: "\<forall>b. Some \<lparr>timestamp = 1700000000\<rparr> = Some b \<longrightarrow>
      \<bar>timestamp b * 1000\<bar> \<le> 8640000000000000"
    by auto
  have state: "getContractState (sv_newContract exampleServices) (Some addrB) addrA =
      \<lparr>balances = [(addrA, ''100'')], info_symbol = Some ''TKN'',
       info_name = Some ''Token'', info_decimals = None\<rparr>"
    by (simp add: getContractState_def exampleServices_def exampleContract_def addrA_def)
  have sender: "tx_from exampleTx = addrA" by (simp add: exampleTx_def)
  have given: "rq_contractAddress plainRequest = Some addrB" "addrB \<noteq> ''''"
    by (simp_all add: plainRequest_def addrB_def)
  have ai: "analyzeDispute (sv_apiKey exampleServices) (sv_post exampleServices)
      = Inl ''AI service temporarily unavailable''"
    by (simp add: example_services analyzeDispute_def attempt_def truthyString_def)
  note plain = analyze_response[OF h1 h2 h3 h4 h5 h6]
  note dispute = analyze_response[OF h1' h2 h3 h4 h5 h6]
  have ok: "analyzeController exampleServices plainRequest =
      \<lparr>rs_status = 200, rs_success = True, rs_error = None,
       rs_data = Some
         \<lparr>rd_txHash = ''0x5c504ed4'',
          rd_contractAddress = Some addrB,
          rd_disputeDescription = None,
          rd_aiAnalysis = None,
          rd_transaction =
            \<lparr>ts_hash = ''0x5c504ed4'',
             ts_blockNumber = rc_blockNumber exampleReceipt,
             ts_blockTime = Some (1700000000 * 1000),
             ts_from = addrA,
             ts_to = tx_to exampleTx,
             ts_value = tx_value exampleTx,
             ts_gasUsed = rc_gasUsed exampleReceipt,
             ts_status = (if rc_status exampleReceipt = Some 1 then ''success'' else ''failed''),
             ts_gasPrice = tx_gasPrice exampleTx,
             ts_nonce = tx_nonce exampleTx\<rparr>,
          rd_events =
            parseLogs (sv_erc20 exampleServices) (sv_erc721 exampleServices)
              (sv_getAddress exampleServices) (rc_logs exampleReceipt) (Some addrB),
          rd_contractState =
            getContractState (sv_newContract exampleServices) (Some addrB) addrA,
          rd_analysis =
            analyzeTransactionPattern exampleTx exampleReceipt
              (parseLogs (sv_erc20 exampleServices) (sv_erc721 exampleServices)
                 (sv_getAddress exampleServices) (rc_logs exampleReceipt) (Some addrB))\<rparr>\<rparr>"
    using plain[THEN conjunct2, THEN conjunct2, THEN conjunct2, THEN conjunct1, rule_format,
        of exampleTx exampleReceipt None]
    by (simp add: example_services given sender state truthyString_def)
  show ?thesis
    using dispute[THEN conjunct2, THEN conjunct2, THEN conjunct1] ai
    by (simp add: ok state example_services truthyString_def)
qed

text \<open>
  The same request against a token whose \<open>decimals()\<close> answers, the case the README
  shows as a success with \<open>"decimals": 6\<close>: the BigInt in the contract state makes
  \<open>res.json\<close> throw, and the controller's \<open>catch\<close> answers 500.
\<close>

lemma decimals_break_the_response:
  "analyzeController tokenServices plainRequest = failure 500 ''Internal server error''"
  by (simp add: analyzeController_def analyzeTransaction_def resolveContractAddress_def
      plainRequest_def tokenServices_def exampleProvider_def tokenContract_def
      getContractState_def res_json_def handleError_def truthyString_def addrB_def addrA_def
      exampleTx_def exampleReceipt_def toISOString_def Let_def)

text \<open>
  The claim as stated fails: a request without a transaction hash is answered with 400,
  and a request whose transaction and receipt both resolve but whose block lookup is
  rejected by the provider is answered with 500. Neither input is a missing transaction,
  a missing receipt or an AI failure.
\<close>

theorem other_failure_responses:
  "rs_status (analyzeController exampleServices emptyRequest) = 400
   \<and> rs_success (analyzeController exampleServices emptyRequest) = False
   \<and> getTransaction (sv_provider flakyServices) ''0x5c504ed4'' = Inr (Some exampleTx)
   \<and> getTransactionReceipt (sv_provider flakyServices) ''0x5c504ed4'' = Inr (Some exampleReceipt)
   \<and> rq_disputeDescription plainRequest = None
   \<and> analyzeController flakyServices plainRequest = failure 500 ''Internal server error''"
  by (simp add: analyzeController_def analyzeTransaction_def resolveContractAddress_def
      emptyRequest_def plainRequest_def flakyServices_def flakyProvider_def failure_def
      handleError_def truthyString_def addrB_def exampleReceipt_def)

text \<open>
  Claim C10. Whatever goes wrong inside \<open>analyzeDispute\<close> (no API key, a rejected
  request, a response without a usable \<open>choices[0]\<close>, or a choice without a message),
  the error that leaves it carries the one message \<open>AI service temporarily unavailable\<close>,
  so a missing key and an unreachable upstream look the same to the caller; the controller
  answers such a failure with status 503 and that message.
\<close>

theorem ai_failure_single_message:
  "(\<forall>e. analyzeDispute apiKey posted = Inl e \<longrightarrow> e = ''AI service temporarily unavailable'')
   \<and> (\<not> truthyString apiKey \<longrightarrow>
        analyzeDispute apiKey posted = Inl ''AI service temporarily unavailable'')
   \<and> (\<forall>err. analyzeDispute apiKey (Inl err) = Inl ''AI service temporarily unavailable'')
   \<and> (\<forall>d. (\<not> truthy d \<or> getProp d ''choices'' = None
            \<or> (\<exists>c. getProp d ''choices'' = Some c
                  \<and> (\<not> truthy c \<or> firstElement c = None
                       \<or> (\<exists>x. firstElement c = Some x \<and> \<not> truthy x)))) \<longrightarrow>
          analyzeDispute apiKey (Inr d) = Inl ''AI service temporarily unavailable'')
   \<and> (\<forall>txHash contractAddress analysis e.
          rq_txHash req = Some txHash \<and> txHash \<noteq> ''''
          \<and> resolveContractAddress sv txHash (rq_contractAddress req) = Inr contractAddress
          \<and> analyzeTransaction sv txHash contractAddress = Inr analysis
          \<and> truthyString (rq_disputeDescription req)
          \<and> analyzeDispute (sv_apiKey sv) (sv_post sv) = Inl e \<longrightarrow>
          analyzeController sv req = failure 503 ''AI service temporarily unavailable'')"
proof -
  have fixed: "e = ''AI service temporarily unavailable''"
    if "analyzeDispute apiKey posted = Inl e" for e and apiKey and posted
    using that by (rule analyzeDispute_message)
  have nokey: "analyzeDispute apiKey posted = Inl ''AI service temporarily unavailable''"
    if "\<not> truthyString apiKey"
    using that by (simp add: analyzeDispute_def attempt_def)
  have rejected: "analyzeDispute apiKey (Inl err) = Inl ''AI service temporarily unavailable''"
    for err
    by (simp add: analyzeDispute_def attempt_def)
  have nochoice: "analyzeDispute apiKey (Inr d) = Inl ''AI service temporarily unavailable''"
    if "\<not> truthy d \<or> getProp d ''choices'' = None
        \<or> (\<exists>c. getProp d ''choices'' = Some c
              \<and> (\<not> truthy c \<or> firstElement c = None
                   \<or> (\<exists>x. firstElement c = Some x \<and> \<not> truthy x)))" for d
    using that by (auto simp: analyzeDispute_def attempt_def)
  have handler: "analyzeController sv req = failure 503 ''AI service temporarily unavailable''"
    if "rq_txHash req = Some txHash" "txHash \<noteq> ''''"
      "resolveContractAddress sv txHash (rq_contractAddress req) = Inr contractAddress"
      "analyzeTransaction sv txHash contractAddress = Inr analysis"
      "truthyString (rq_disputeDescription req)"
      "analyzeDispute (sv_apiKey sv) (sv_post sv) = Inl e"
    for txHash contractAddress analysis e
    using that fixed[OF that(6)]
    by (simp add: analyzeController_def handleError_messages)
  show ?thesis
    apply (intro conjI)
        apply (intro allI impI, erule fixed)
       apply (intro impI, erule nokey)
      apply (intro allI, rule rejected)
     apply (intro allI impI, erule nochoice)
    apply (intro allI impI, elim conjE, erule (5) handler)
    done
qed

theorem ai_failure_single_message_witness:
  "analyzeDispute None (Inr (JObj [(''choices'', JArr [])]))
     = Inl ''AI service temporarily unavailable''
   \<and> analyzeDispute (Some ''gsk_key'') (Inl ''connect ECONNREFUSED'')
     = Inl ''AI service temporarily unavailable''
   \<and> analyzeDispute (Some ''gsk_key'') (Inr (JObj [(''choices'', JArr [])]))
     = Inl ''AI service temporarily unavailable''
   \<and> analyzeController exampleServices disputeRequest
     = failure 503 ''AI service temporarily unavailable''"
proof -
  note general = ai_failure_single_message[of _ _ disputeRequest exampleServices]
  have nokey: "\<not> truthyString None" by (simp add: truthyString_def)
  have nochoice: "\<not> truthy (JObj [(''choices'', JArr [])])
      \<or> getProp (JObj [(''choices'', JArr [])]) ''choices'' = None
      \<or> (\<exists>c. getProp (JObj [(''choices'', JArr [])]) ''choices'' = Some c
            \<and> (\<not> truthy c \<or> firstElement c = None
                 \<or> (\<exists>x. firstElement c = Some x \<and> \<not> truthy x)))"
    by simp
  have resolved: "resolveContractAddress exampleServices ''0x5c504ed4''
      (rq_contractAddress disputeRequest) = Inr (Some addrB)"
    by (simp add: resolveContractAddress_def example_services truthyString_def addrB_def)
  obtain analysis where analysed:
    "analyzeTransaction exampleServices ''0x5c504ed4'' (Some addrB) = Inr analysis"
    by (simp add: analyzeTransaction_def example_services Let_def toISOString_def)
  have asked: "truthyString (rq_disputeDescription disputeRequest)"
    by (simp add: example_services truthyString_def)
  have ai: "analyzeDispute (sv_apiKey exampleServices) (sv_post exampleServices)
      = Inl ''AI service temporarily unavailable''"
    by (simp add: example_services analyzeDispute_def attempt_def truthyString_def)
  have hash: "rq_txHash disputeRequest = Some ''0x5c504ed4'' \<and> ''0x5c504ed4'' \<noteq> ''''"
    by (simp add: example_services)
  show ?thesis
    using general[of None "Inr (JObj [(''choices'', JArr [])])", THEN conjunct2, THEN conjunct1,
        rule_format, OF nokey]
      general[of "Some ''gsk_key''" "Inl ''connect ECONNREFUSED''", THEN conjunct2,
        THEN conjunct2, THEN conjunct1, rule_format, of "''connect ECONNREFUSED''"]
      general[of "Some ''gsk_key''" "Inl ''connect ECONNREFUSED''", THEN conjunct2,
        THEN conjunct2, THEN conjunct2, THEN conjunct1, rule_format, OF nochoice]
      general[of None "Inl ''connect ECONNREFUSED''", THEN conjunct2, THEN conjunct2,
        THEN conjunct2, THEN conjunct2, rule_format,
        of "''0x5c504ed4''" "Some addrB" analysis "''AI service temporarily unavailable''"]
      hash resolved analysed asked ai
    by simp
qed

end
